theory Spec2Isabelle
  imports Complex_Main "HOL-Library.Word" "HOL-Library.Log_Nat"
begin

unbundle bit_operations_syntax

section \<open>Values, errors and results\<close>

text \<open>
  The model follows \<^verbatim>\<open>PyCod/xbin.py\<close>. Python integers are unbounded and are modelled
  as \<open>int\<close>. A \<^verbatim>\<open>bytes\<close> value is a list of 8-bit words. A Python \<^verbatim>\<open>str\<close> is
  represented by its UTF-8 encoding, so that \<^verbatim>\<open>str.encode('utf-8')\<close> is the identity on
  the representation and \<^verbatim>\<open>bytes.decode('utf-8')\<close> is a check of well-formedness.

  A Python float is modelled as an exact rational or one of the three special values.
  Arithmetic on finite floats is exact in the model: rounding and overflow of binary64
  are not modelled. The binary32 wire format of \<^verbatim>\<open>struct\<close>'s \<^verbatim>\<open>'f'\<close> is modelled bit
  for bit (\<open>f32_encode\<close>, \<open>f32_decode\<close>).
\<close>

type_synonym byte = "8 word"
type_synonym bytes = "byte list"
type_synonym pystr = "byte list"

datatype pyfloat = Fin rat | PInf | NInf | NaN

type_synonym vec = "pyfloat list"

datatype asset = MODEL | ANIM

text \<open>
  Every exception the modelled code can raise. \<open>BadMagic\<close> is the \<^verbatim>\<open>ValueError\<close> of
  \<^verbatim>\<open>__decompress_internal__\<close> with the bytes found; \<open>UnknownBlockHash\<close> is the
  \<^verbatim>\<open>ValueError\<close> of the block loop with the tag and the offset; \<open>UnimplementedBlock\<close> is
  its \<^verbatim>\<open>NotImplementedError\<close> with the display name and the offset;
  \<open>AssetTypeMismatch\<close> is the \<^verbatim>\<open>TypeError\<close> of \<^verbatim>\<open>InitModel\<close> and \<^verbatim>\<open>InitAnim\<close> with the
  asset found and the asset expected. \<open>StructError\<close> is \<^verbatim>\<open>struct.error\<close>; \<open>Lz4Error\<close> is
  whatever the decompressor raises.
\<close>

datatype error =
    BadMagic bytes
  | UnknownBlockHash int int
  | UnimplementedBlock string int
  | AssetTypeMismatch asset asset
  | StructError
  | IndexError
  | AttributeError
  | TypeError
  | ValueError
  | OverflowError
  | UnicodeDecodeError
  | Lz4Error

text \<open>
  A call that can raise returns \<open>error + 'a\<close>. A call that can also run forever
  (\<^verbatim>\<open>LoadString\<close> on a stream without a terminator) returns \<open>(error + 'a) option\<close>,
  where \<open>None\<close> stands for not returning.
\<close>

type_synonym 'a res = "(error + 'a) option"

definition ebind :: "error + 'a \<Rightarrow> ('a \<Rightarrow> error + 'b) \<Rightarrow> error + 'b" where
  "ebind m k = (case m of Inl e \<Rightarrow> Inl e | Inr x \<Rightarrow> k x)"

definition rbind :: "'a res \<Rightarrow> ('a \<Rightarrow> 'b res) \<Rightarrow> 'b res" where
  "rbind m k = (case m of None \<Rightarrow> None | Some (Inl e) \<Rightarrow> Some (Inl e) | Some (Inr x) \<Rightarrow> k x)"

definition lift :: "error + 'a \<Rightarrow> 'a res" where
  "lift m = Some m"

section \<open>Alignment and fixed-point helpers\<close>

text \<open>
  \<^verbatim>\<open>padded\<close> masks with the 56-bit constant \<^verbatim>\<open>0xFFFFFFFFFFFFFC\<close> (thirteen F digits and
  a C).
\<close>

definition padded :: "int \<Rightarrow> int" where
  "padded sz = (sz + 0x3) AND 0xFFFFFFFFFFFFFC"

text \<open>\<^verbatim>\<open>int(x)\<close> on a float truncates towards zero and raises on the special values.\<close>

definition py_int :: "pyfloat \<Rightarrow> error + int" where
  "py_int x = (case x of
       Fin q \<Rightarrow> Inr (if 0 \<le> q then \<lfloor>q\<rfloor> else \<lceil>q\<rceil>)
     | PInf \<Rightarrow> Inl OverflowError
     | NInf \<Rightarrow> Inl OverflowError
     | NaN \<Rightarrow> Inl ValueError)"

text \<open>\<^verbatim>\<open>x * c\<close> for a float \<open>x\<close> and an integer \<open>c\<close>.\<close>

definition fmul :: "pyfloat \<Rightarrow> int \<Rightarrow> pyfloat" where
  "fmul x c = (case x of
       Fin q \<Rightarrow> Fin (q * of_int c)
     | PInf \<Rightarrow> (if 0 < c then PInf else if c < 0 then NInf else NaN)
     | NInf \<Rightarrow> (if 0 < c then NInf else if c < 0 then PInf else NaN)
     | NaN \<Rightarrow> NaN)"

text \<open>\<^verbatim>\<open>x / c\<close> for an integer \<open>x\<close> and a non-zero float constant \<open>c\<close> given as an integer.\<close>

definition fdiv :: "int \<Rightarrow> int \<Rightarrow> pyfloat" where
  "fdiv x c = Fin (of_int x / of_int c)"

text \<open>
  \<^verbatim>\<open>__clamp_float_to_short__(value, clamp=(-32768, 32767))\<close>: the two parameters \<open>lo\<close> and
  \<open>hi\<close> are the components of \<^verbatim>\<open>clamp\<close>.
\<close>

definition clamp_float_to_short_with :: "int \<Rightarrow> int \<Rightarrow> pyfloat \<Rightarrow> error + int" where
  "clamp_float_to_short_with lo hi v = ebind (py_int (fmul v hi)) (\<lambda>i. Inr (max (min i hi) lo))"

definition clamp_float_to_short :: "pyfloat \<Rightarrow> error + int" where
  "clamp_float_to_short v = clamp_float_to_short_with (- 32768) 32767 v"


text \<open>
  The alignment as the specification words it, \<^verbatim>\<open>(n + 3) & ~3\<close>, and truncation towards
  zero (the integer part with the sign kept), which is what \<^verbatim>\<open>int()\<close> does where the
  specification says \<^verbatim>\<open>round\<close>.
\<close>

definition spec_padded :: "int \<Rightarrow> int" where
  "spec_padded n = (n + 3) AND NOT 3"



section \<open>The struct module\<close>

text \<open>
  Integers are packed little-endian, in two's complement; every format of the source is
  naturally aligned, so native alignment inserts no padding beyond the explicit
  \<^verbatim>\<open>x\<close> bytes. \<^verbatim>\<open>struct.pack\<close> raises \<^verbatim>\<open>struct.error\<close> on a value outside the range of
  its code, and \<^verbatim>\<open>struct.unpack\<close> on a buffer of the wrong length.
\<close>

fun le_bytes :: "nat \<Rightarrow> int \<Rightarrow> bytes" where
  "le_bytes 0 v = []"
| "le_bytes (Suc k) v = word_of_int v # le_bytes k (v div 256)"

fun le_uint :: "bytes \<Rightarrow> int" where
  "le_uint [] = 0"
| "le_uint (b # bs) = uint b + 256 * le_uint bs"

definition le_sint :: "bytes \<Rightarrow> int" where
  "le_sint bs = (let u = le_uint bs; m = 2 ^ (8 * length bs)
                 in if m \<le> 2 * u then u - m else u)"

definition pack_range :: "nat \<Rightarrow> int \<Rightarrow> int \<Rightarrow> int \<Rightarrow> error + bytes" where
  "pack_range k lo hi v = (if lo \<le> v \<and> v \<le> hi then Inr (le_bytes k v) else Inl StructError)"

definition pack_B :: "int \<Rightarrow> error + bytes" where
  "pack_B v = pack_range 1 0 0xFF v"

definition pack_H :: "int \<Rightarrow> error + bytes" where
  "pack_H v = pack_range 2 0 0xFFFF v"

definition pack_h :: "int \<Rightarrow> error + bytes" where
  "pack_h v = pack_range 2 (- 0x8000) 0x7FFF v"

definition pack_I :: "int \<Rightarrow> error + bytes" where
  "pack_I v = pack_range 4 0 0xFFFFFFFF v"

definition pack_i :: "int \<Rightarrow> error + bytes" where
  "pack_i v = pack_range 4 (- 0x80000000) 0x7FFFFFFF v"

text \<open>\<^verbatim>\<open>'%ds' % n\<close>: the string cut or zero-filled to \<open>n\<close> bytes.\<close>

definition pack_s :: "nat \<Rightarrow> bytes \<Rightarrow> bytes" where
  "pack_s n s = take n s @ replicate (n - length s) 0"

text \<open>The pad bytes \<^verbatim>\<open>xx\<close>.\<close>

definition pack_xx :: "bytes" where
  "pack_xx = [0, 0]"

subsection \<open>binary32\<close>

definition round_half_even :: "rat \<Rightarrow> int" where
  "round_half_even x = (let f = \<lfloor>x\<rfloor>; r = x - of_int f
     in if r < 1 / 2 then f else if 1 / 2 < r then f + 1 else if even f then f else f + 1)"

definition pow2 :: "int \<Rightarrow> rat" where
  "pow2 e = (if 0 \<le> e then 2 ^ nat e else 1 / 2 ^ nat (- e))"

text \<open>
  The bits of the binary32 nearest to a float (ties to even), as the C conversion
  \<^verbatim>\<open>(float)x\<close> that the native \<^verbatim>\<open>'f'\<close> of \<^verbatim>\<open>struct.pack\<close> performs: a finite value
  beyond the range becomes an infinity, and nothing is raised.
\<close>

definition f32_encode :: "pyfloat \<Rightarrow> int" where
  "f32_encode x = (case x of
       PInf \<Rightarrow> 0x7F800000
     | NInf \<Rightarrow> 0xFF800000
     | NaN \<Rightarrow> 0x7FC00000
     | Fin q \<Rightarrow>
        (let a = \<bar>q\<bar>;
             e = max (- 126) (bitlen \<lfloor>a * 2 ^ 126\<rfloor> - 127);
             n = round_half_even (a / pow2 (e - 23));
             mag = min 0x7F800000 ((e + 126) * 2 ^ 23 + n)
         in (if q < 0 then 2 ^ 31 else 0) + mag))"

definition f32_decode :: "int \<Rightarrow> pyfloat" where
  "f32_decode w = (let s = w div 2 ^ 31; e = (w div 2 ^ 23) mod 256; m = w mod 2 ^ 23;
                       sg = (if s = 1 then - 1 else 1)
     in if e = 255 then (if m = 0 then (if s = 1 then NInf else PInf) else NaN)
        else if e = 0 then Fin (sg * of_int m * pow2 (- 149))
        else Fin (sg * of_int (2 ^ 23 + m) * pow2 (e - 150)))"

definition pack_f :: "pyfloat \<Rightarrow> error + bytes" where
  "pack_f x = Inr (le_bytes 4 (f32_encode x))"

text \<open>A run of values under one code each: \<^verbatim>\<open>struct.pack('fff', *vec)\<close>.\<close>

fun pack_all :: "('a \<Rightarrow> error + bytes) \<Rightarrow> 'a list \<Rightarrow> error + bytes" where
  "pack_all p [] = Inr []"
| "pack_all p (x # xs) = ebind (p x) (\<lambda>b. ebind (pack_all p xs) (\<lambda>bs. Inr (b @ bs)))"

text \<open>
  \<^verbatim>\<open>struct.pack\<close> with \<open>n\<close> codes and the unpacked sequence \<^verbatim>\<open>*xs\<close>: a sequence of another
  length is a \<^verbatim>\<open>struct.error\<close>.
\<close>

definition pack_n :: "nat \<Rightarrow> ('a \<Rightarrow> error + bytes) \<Rightarrow> 'a list \<Rightarrow> error + bytes" where
  "pack_n n p xs = (if length xs = n then pack_all p xs else Inl StructError)"

text \<open>
  Unpacking: the buffer has exactly the size of the format, or \<^verbatim>\<open>struct.error\<close> is
  raised. \<open>field d i k\<close> is the \<open>k\<close> bytes of \<open>d\<close> from offset \<open>i\<close>.
\<close>

definition field :: "bytes \<Rightarrow> nat \<Rightarrow> nat \<Rightarrow> bytes" where
  "field d i k = take k (drop i d)"

definition unpack_sized :: "nat \<Rightarrow> bytes \<Rightarrow> (bytes \<Rightarrow> 'a) \<Rightarrow> error + 'a" where
  "unpack_sized n d rd = (if length d = n then Inr (rd d) else Inl StructError)"

definition unpack_h :: "bytes \<Rightarrow> error + int" where
  "unpack_h d = unpack_sized 2 d le_sint"

definition unpack_H :: "bytes \<Rightarrow> error + int" where
  "unpack_H d = unpack_sized 2 d le_uint"

definition unpack_i :: "bytes \<Rightarrow> error + int" where
  "unpack_i d = unpack_sized 4 d le_sint"

definition unpack_ii :: "bytes \<Rightarrow> error + int \<times> int" where
  "unpack_ii d = unpack_sized 8 d (\<lambda>d. (le_sint (field d 0 4), le_sint (field d 4 4)))"

definition unpack_hhh :: "bytes \<Rightarrow> error + int \<times> int \<times> int" where
  "unpack_hhh d = unpack_sized 6 d
     (\<lambda>d. (le_sint (field d 0 2), le_sint (field d 2 2), le_sint (field d 4 2)))"

definition unpack_BB :: "bytes \<Rightarrow> error + int \<times> int" where
  "unpack_BB d = unpack_sized 2 d (\<lambda>d. (le_uint (field d 0 1), le_uint (field d 1 1)))"

definition unpack_HH :: "bytes \<Rightarrow> error + int \<times> int" where
  "unpack_HH d = unpack_sized 4 d (\<lambda>d. (le_uint (field d 0 2), le_uint (field d 2 2)))"

definition unpack_BBBB :: "bytes \<Rightarrow> error + int \<times> int \<times> int \<times> int" where
  "unpack_BBBB d = unpack_sized 4 d
     (\<lambda>d. (le_uint (field d 0 1), le_uint (field d 1 1), le_uint (field d 2 1),
            le_uint (field d 3 1)))"

definition unpack_float :: "bytes \<Rightarrow> pyfloat" where
  "unpack_float d = f32_decode (le_uint d)"

text \<open>\<^verbatim>\<open>'f'\<close>, \<^verbatim>\<open>'ff'\<close>, \<^verbatim>\<open>'fff'\<close>, \<^verbatim>\<open>'ffff'\<close>: a tuple of \<open>n\<close> floats.\<close>

definition unpack_floats :: "nat \<Rightarrow> bytes \<Rightarrow> error + vec" where
  "unpack_floats n d = unpack_sized (4 * n) d
     (\<lambda>d. map (\<lambda>i. unpack_float (field d (4 * i) 4)) [0..<n])"

text \<open>\<^verbatim>\<open>'=hf'\<close> and \<^verbatim>\<open>'=hff'\<close>: standard sizes, no alignment.\<close>

definition unpack_hf :: "bytes \<Rightarrow> error + int \<times> pyfloat" where
  "unpack_hf d = unpack_sized 6 d (\<lambda>d. (le_sint (field d 0 2), unpack_float (field d 2 4)))"

definition unpack_hff :: "bytes \<Rightarrow> error + int \<times> pyfloat \<times> pyfloat" where
  "unpack_hff d = unpack_sized 10 d
     (\<lambda>d. (le_sint (field d 0 2), unpack_float (field d 2 4), unpack_float (field d 6 4)))"

subsection \<open>UTF-8\<close>

text \<open>
  \<^verbatim>\<open>bytes.decode('utf-8')\<close> accepts exactly the well-formed sequences of the Unicode
  standard (no overlong forms, no surrogates, nothing above U+10FFFF). The automaton
  keeps what the next byte must be: \<open>U0\<close> between characters, \<open>U1\<close>, \<open>U2\<close>, \<open>U3\<close> so
  many continuation bytes, and the four restricted second bytes.
\<close>

datatype utf8_state = U0 | U1 | U2 | U3 | UE0 | UED | UF0 | UF4

definition utf8_step :: "utf8_state \<Rightarrow> byte \<Rightarrow> utf8_state option" where
  "utf8_step s b = (let c = unat b; cont = (\<lambda>lo hi t. if lo \<le> c \<and> c \<le> hi then Some t else None)
     in case s of
          U0 \<Rightarrow> (if c < 0x80 then Some U0
                 else if 0xC2 \<le> c \<and> c \<le> 0xDF then Some U1
                 else if c = 0xE0 then Some UE0
                 else if c = 0xED then Some UED
                 else if 0xE1 \<le> c \<and> c \<le> 0xEF then Some U2
                 else if c = 0xF0 then Some UF0
                 else if 0xF1 \<le> c \<and> c \<le> 0xF3 then Some U3
                 else if c = 0xF4 then Some UF4
                 else None)
        | U1 \<Rightarrow> cont 0x80 0xBF U0
        | U2 \<Rightarrow> cont 0x80 0xBF U1
        | U3 \<Rightarrow> cont 0x80 0xBF U2
        | UE0 \<Rightarrow> cont 0xA0 0xBF U1
        | UED \<Rightarrow> cont 0x80 0x9F U1
        | UF0 \<Rightarrow> cont 0x90 0xBF U2
        | UF4 \<Rightarrow> cont 0x80 0x8F U2)"

fun utf8_run :: "utf8_state \<Rightarrow> bytes \<Rightarrow> bool" where
  "utf8_run s [] = (s = U0)"
| "utf8_run s (b # bs) = (case utf8_step s b of None \<Rightarrow> False | Some t \<Rightarrow> utf8_run t bs)"

definition decode_utf8 :: "bytes \<Rightarrow> error + pystr" where
  "decode_utf8 bs = (if utf8_run U0 bs then Inr bs else Inl UnicodeDecodeError)"

section \<open>The file object\<close>

text \<open>
  A \<^verbatim>\<open>BytesIO\<close>: the buffer and the position. \<^verbatim>\<open>read(n)\<close> returns the bytes that are
  left, at most \<open>n\<close>, and nothing at or beyond the end; \<^verbatim>\<open>seek\<close> may go beyond the end
  and raises \<^verbatim>\<open>ValueError\<close> on a negative position.
\<close>

record bytesio =
  data :: bytes
  pos :: nat

definition fread :: "bytesio \<Rightarrow> nat \<Rightarrow> bytes \<times> bytesio" where
  "fread f n = (let b = take n (drop (pos f) (data f)) in (b, f\<lparr>pos := pos f + length b\<rparr>))"


definition ftell :: "bytesio \<Rightarrow> int" where
  "ftell f = int (pos f)"

definition fseek :: "bytesio \<Rightarrow> int \<Rightarrow> error + bytesio" where
  "fseek f p = (if p < 0 then Inl ValueError else Inr (f\<lparr>pos := nat p\<rparr>))"

section \<open>XBlock: the block readers\<close>

text \<open>
  The loop of \<^verbatim>\<open>LoadString\<close>: at the end of the buffer \<^verbatim>\<open>read(1)\<close> returns the empty
  bytes, which never equal the terminator, so the loop does not return.
\<close>

partial_function (option) LoadString_loop :: "bytesio \<Rightarrow> bytes \<Rightarrow> bytes \<Rightarrow> (bytes \<times> bytesio) option" where
  "LoadString_loop f bs b =
     (if b = [0] then Some (bs, f)
      else (case fread f 1 of (b', f') \<Rightarrow> LoadString_loop f' (bs @ b) b'))"

declare LoadString_loop.simps [code]

definition LoadString :: "bytesio \<Rightarrow> (pystr \<times> bytesio) res" where
  "LoadString f = (case fread f 1 of (b, f1) \<Rightarrow>
     (case LoadString_loop f1 [] b of
        None \<Rightarrow> None
      | Some (bs, f2) \<Rightarrow> Some (ebind (decode_utf8 bs) (\<lambda>s. Inr (s, f2)))))"

text \<open>\<^verbatim>\<open>file.seek(start + padded(file.tell() - start))\<close>, the closing step of the meta readers.\<close>

definition seek_padded :: "int \<Rightarrow> 'a \<Rightarrow> bytesio \<Rightarrow> error + 'a \<times> bytesio" where
  "seek_padded start v f = ebind (fseek f (start + padded (ftell f - start))) (\<lambda>f'. Inr (v, f'))"

definition LoadString_Aligned :: "bytesio \<Rightarrow> (pystr \<times> bytesio) res" where
  "LoadString_Aligned f = (let start = ftell f in
     rbind (LoadString f) (\<lambda>(string, f1). lift (seek_padded start string f1)))"

definition LoadInt16Block :: "bytesio \<Rightarrow> error + int \<times> bytesio" where
  "LoadInt16Block f = (case fread f 2 of (d, f1) \<Rightarrow> ebind (unpack_h d) (\<lambda>v. Inr (v, f1)))"

definition LoadUInt16Block :: "bytesio \<Rightarrow> error + int \<times> bytesio" where
  "LoadUInt16Block f = (case fread f 2 of (d, f1) \<Rightarrow> ebind (unpack_H d) (\<lambda>v. Inr (v, f1)))"

definition LoadInt32Block :: "bytesio \<Rightarrow> error + int \<times> bytesio" where
  "LoadInt32Block f = ebind (fseek f (ftell f + 2)) (\<lambda>f1.
     case fread f1 4 of (d, f2) \<Rightarrow> ebind (unpack_i d) (\<lambda>v. Inr (v, f2)))"

definition LoadCommentBlock :: "bytesio \<Rightarrow> (pystr \<times> bytesio) res" where
  "LoadCommentBlock f = (let start = ftell f - 2 in
     rbind (lift (fseek f (start + 4))) (\<lambda>f1.
     rbind (LoadString f1) (\<lambda>(string, f2).
     lift (seek_padded start string f2))))"

definition LoadBoneBlock :: "bytesio \<Rightarrow> ((int \<times> int \<times> pystr) \<times> bytesio) res" where
  "LoadBoneBlock f = (let start = ftell f - 2 in
     rbind (lift (fseek f (start + 4))) (\<lambda>f1.
     case fread f1 8 of (d, f2) \<Rightarrow>
     rbind (lift (unpack_ii d)) (\<lambda>(index, parent).
     rbind (LoadString f2) (\<lambda>(name, f3).
     lift (seek_padded start (index, parent, name) f3)))))"

text \<open>
  The meta readers of floats: \<^verbatim>\<open>LoadFloatBlock\<close> (\<open>n = 1\<close>, it returns the 1-tuple of
  \<^verbatim>\<open>struct.unpack\<close>), \<^verbatim>\<open>LoadVec2Block\<close>, \<^verbatim>\<open>LoadVec3Block\<close> and \<^verbatim>\<open>LoadVec4Block\<close>.
\<close>

definition LoadVecBlock :: "nat \<Rightarrow> bytesio \<Rightarrow> error + vec \<times> bytesio" where
  "LoadVecBlock n f = (let start = ftell f - 2 in
     ebind (fseek f (start + 4)) (\<lambda>f1.
     case fread f1 (4 * n) of (d, f2) \<Rightarrow>
     ebind (unpack_floats n d) (\<lambda>result.
     seek_padded start result f2)))"

definition LoadFloatBlock :: "bytesio \<Rightarrow> error + vec \<times> bytesio" where
  "LoadFloatBlock f = LoadVecBlock 1 f"

definition LoadVec2Block :: "bytesio \<Rightarrow> error + vec \<times> bytesio" where
  "LoadVec2Block f = LoadVecBlock 2 f"

definition LoadVec3Block :: "bytesio \<Rightarrow> error + vec \<times> bytesio" where
  "LoadVec3Block f = LoadVecBlock 3 f"

definition LoadVec4Block :: "bytesio \<Rightarrow> error + vec \<times> bytesio" where
  "LoadVec4Block f = LoadVecBlock 4 f"

definition LoadShortVec3Block :: "bytesio \<Rightarrow> error + vec \<times> bytesio" where
  "LoadShortVec3Block f = (case fread f 6 of (d, f1) \<Rightarrow>
     ebind (unpack_hhh d) (\<lambda>(x, y, z). Inr ([fdiv x 32767, fdiv y 32767, fdiv z 32767], f1)))"

definition LoadVertexWeightBlock :: "bytesio \<Rightarrow> error + (int \<times> pyfloat) \<times> bytesio" where
  "LoadVertexWeightBlock f = (case fread f 6 of (d, f1) \<Rightarrow>
     ebind (unpack_hf d) (\<lambda>result. Inr (result, f1)))"

definition LoadTriangleBlock :: "bytesio \<Rightarrow> error + (int \<times> int) \<times> bytesio" where
  "LoadTriangleBlock f = (case fread f 2 of (d, f1) \<Rightarrow>
     ebind (unpack_BB d) (\<lambda>result. Inr (result, f1)))"

definition LoadTriangle16Block :: "bytesio \<Rightarrow> error + (int \<times> int) \<times> bytesio" where
  "LoadTriangle16Block f = ebind (fseek f (ftell f + 2)) (\<lambda>f1.
     case fread f1 4 of (d, f2) \<Rightarrow> ebind (unpack_HH d) (\<lambda>result. Inr (result, f2)))"

definition LoadColorBlock :: "bytesio \<Rightarrow> error + vec \<times> bytesio" where
  "LoadColorBlock f = ebind (fseek f (ftell f + 2)) (\<lambda>f1.
     case fread f1 4 of (d, f2) \<Rightarrow>
     ebind (unpack_BBBB d) (\<lambda>(r, g, b, a).
       Inr ([fdiv r 255, fdiv g 255, fdiv b 255, fdiv a 255], f2)))"

definition LoadUVBlock :: "bytesio \<Rightarrow> error + vec \<times> bytesio" where
  "LoadUVBlock f = (case fread f 10 of (d, f1) \<Rightarrow>
     ebind (unpack_hff d) (\<lambda>(layer, u, v). Inr ([u, v], f1)))"

definition LoadObjectBlock :: "bytesio \<Rightarrow> ((int \<times> pystr) \<times> bytesio) res" where
  "LoadObjectBlock f = (let start = ftell f - 2 in
     case fread f 2 of (d, f1) \<Rightarrow>
     rbind (lift (unpack_h d)) (\<lambda>index.
     rbind (LoadString f1) (\<lambda>(name, f2).
     lift (seek_padded start (index, name) f2))))"

text \<open>
  \<^verbatim>\<open>LoadMaterialBlock\<close> reads the three strings before it unpacks the index.
  \<^verbatim>\<open>deserialize_image_string\<close> belongs to the module \<^verbatim>\<open>xmodel\<close> and is a parameter.
\<close>

definition LoadMaterialBlock ::
  "(pystr \<Rightarrow> 'i) \<Rightarrow> bytesio \<Rightarrow> ((int \<times> pystr \<times> pystr \<times> 'i) \<times> bytesio) res" where
  "LoadMaterialBlock deserialize_image_string f = (let start = ftell f - 2 in
     case fread f 2 of (d, f1) \<Rightarrow>
     rbind (LoadString_Aligned f1) (\<lambda>(name, f2).
     rbind (LoadString_Aligned f2) (\<lambda>(type, f3).
     rbind (LoadString_Aligned f3) (\<lambda>(imgs_string, f4).
     rbind (lift (unpack_h d)) (\<lambda>index.
     lift (seek_padded start (index, name, type, deserialize_image_string imgs_string) f4))))))"

definition LoadNoteFrameBlock :: "bytesio \<Rightarrow> ((int \<times> pystr) \<times> bytesio) res" where
  "LoadNoteFrameBlock f = (let start = ftell f - 2 in
     rbind (lift (fseek f (start + 4))) (\<lambda>f1.
     case fread f1 4 of (d, f2) \<Rightarrow>
     rbind (lift (unpack_i d)) (\<lambda>frame.
     rbind (LoadString f2) (\<lambda>(string, f3).
     lift (seek_padded start (frame, string) f3)))))"

section \<open>The asset graph\<close>

text \<open>
  Modelled from the spec: the classes \<^verbatim>\<open>Bone\<close>, \<^verbatim>\<open>Vertex\<close>, \<^verbatim>\<open>FaceVertex\<close>, \<^verbatim>\<open>Face\<close>,
  \<^verbatim>\<open>Material\<close> and \<^verbatim>\<open>Mesh\<close> of the module \<^verbatim>\<open>xmodel\<close>, and \<^verbatim>\<open>PartInfo\<close>, \<^verbatim>\<open>FramePart\<close>,
  \<^verbatim>\<open>Frame\<close> and \<^verbatim>\<open>Note\<close> of \<^verbatim>\<open>xanim\<close>, are not part of \<^verbatim>\<open>xbin.py\<close>. Each is a record of
  the fields the codec reads and writes (section 6 of the specification, and the
  attribute names used in \<^verbatim>\<open>xbin.py\<close>). A field the constructor is not given is \<open>None\<close>
  until a block handler assigns it; a new bone is not cosmetic; a new mesh has no
  vertices and no faces. An object accepts the attributes of its record only.

  Vectors are the tuples of \<^verbatim>\<open>struct.unpack\<close>. The phong value of a material is a
  float when a caller builds the material and the 1-tuple of \<^verbatim>\<open>LoadFloatBlock\<close> when
  the decoder assigns it.
\<close>

record bone =
  bone_name :: pystr
  bone_parent :: int
  bone_cosmetic :: bool
  bone_offset :: "vec option"
  bone_scale :: "vec option"
  bone_matrix :: "vec list option"

record vertex =
  vertex_offset :: "vec option"
  vertex_weights :: "(int \<times> pyfloat) list option"

record face_vertex =
  fv_vertex :: int
  fv_normal :: "vec option"
  fv_color :: "vec option"
  fv_uv :: "vec option"

record 'a face =
  face_mesh_id :: int
  face_material_id :: int
  face_indices :: "'a list"

datatype phong_value = PhongFloat pyfloat | PhongTuple vec

record 'i material =
  mat_name :: pystr
  mat_type :: pystr
  mat_images :: 'i
  mat_color :: "vec option"
  mat_transparency :: "vec option"
  mat_color_ambient :: "vec option"
  mat_incandescence :: "vec option"
  mat_coeffs :: "vec option"
  mat_glow :: "vec option"
  mat_refractive :: "vec option"
  mat_color_specular :: "vec option"
  mat_color_reflective :: "vec option"
  mat_reflective :: "vec option"
  mat_blinn :: "vec option"
  mat_phong :: "phong_value option"

record ('v, 'f) mesh =
  mesh_name :: pystr
  mesh_verts :: "'v list"
  mesh_faces :: "'f list"

record part_info =
  part_name :: pystr

record frame_part =
  part_offset :: "vec option"
  part_matrix :: "vec list"

record 'p frame =
  frame_frame :: int
  frame_parts :: "'p list"

record anim_note =
  note_frame :: int
  note_string :: pystr

definition Bone :: "pystr \<Rightarrow> int \<Rightarrow> bone" where
  "Bone name parent = \<lparr>bone_name = name, bone_parent = parent, bone_cosmetic = False,
     bone_offset = None, bone_scale = None, bone_matrix = None\<rparr>"

definition Vertex :: "vertex" where
  "Vertex = \<lparr>vertex_offset = None, vertex_weights = None\<rparr>"

definition FaceVertex :: "int \<Rightarrow> face_vertex" where
  "FaceVertex index = \<lparr>fv_vertex = index, fv_normal = None, fv_color = None, fv_uv = None\<rparr>"

text \<open>\<^verbatim>\<open>tri = Face(object_index, material_index); tri.indices = []\<close>.\<close>

definition Face :: "int \<Rightarrow> int \<Rightarrow> 'a face" where
  "Face object_index material_index =
     \<lparr>face_mesh_id = object_index, face_material_id = material_index, face_indices = []\<rparr>"

definition Material :: "pystr \<Rightarrow> pystr \<Rightarrow> 'i \<Rightarrow> 'i material" where
  "Material name type images = \<lparr>mat_name = name, mat_type = type, mat_images = images,
     mat_color = None, mat_transparency = None, mat_color_ambient = None,
     mat_incandescence = None, mat_coeffs = None, mat_glow = None, mat_refractive = None,
     mat_color_specular = None, mat_color_reflective = None, mat_reflective = None,
     mat_blinn = None, mat_phong = None\<rparr>"

definition Mesh :: "pystr \<Rightarrow> ('v, 'f) mesh" where
  "Mesh name = \<lparr>mesh_name = name, mesh_verts = [], mesh_faces = []\<rparr>"

definition PartInfo :: "pystr \<Rightarrow> part_info" where
  "PartInfo name = \<lparr>part_name = name\<rparr>"

text \<open>\<^verbatim>\<open>XAnim.FramePart(matrix=[])\<close>.\<close>

definition FramePart :: "frame_part" where
  "FramePart = \<lparr>part_offset = None, part_matrix = []\<rparr>"

definition Note :: "int \<Rightarrow> pystr \<Rightarrow> anim_note" where
  "Note frame string = \<lparr>note_frame = frame, note_string = string\<rparr>"

section \<open>The decode state\<close>

text \<open>
  The objects the decoder creates and later mutates through a second reference (the
  active entity, the active face, the active frame) live in a store: a list of objects,
  the address of an object being its index. A list of the asset graph holds addresses,
  or \<open>None\<close> for a slot not yet filled.
\<close>

datatype 'i obj =
    OBone bone
  | OVertex vertex
  | OFaceVertex face_vertex
  | OFace "nat face"
  | OMaterial "'i material"
  | OFramePart frame_part
  | OFrame "nat option frame"

text \<open>
  \<open>fh\<close> is the file handle; \<open>self_bones\<close> to \<open>self_notes\<close> are the attributes of \<^verbatim>\<open>self\<close>, \<open>None\<close>
  while \<^verbatim>\<open>self\<close> has no such attribute; \<open>dummy_mesh\<close> is the local mesh; the last four
  fields are the \<^verbatim>\<open>LoadState\<close>.
\<close>

record 'i ctx =
  fh :: bytesio
  heap :: "'i obj list"
  self_bones :: "nat option list option"
  self_cosmetics :: "int option"
  self_meshes :: "(vertex, face_vertex face) mesh option list option"
  self_materials :: "nat option list option"
  self_parts :: "part_info option list option"
  self_framerate :: "int option"
  self_frames :: "nat list option"
  self_notes :: "anim_note list option"
  dummy_mesh :: "(nat option, nat) mesh"
  active_thing :: "nat option"
  active_tri :: "nat option"
  active_frame :: "nat option"
  asset_type :: "asset option"

text \<open>Reading an attribute that the object does not have raises \<^verbatim>\<open>AttributeError\<close>.\<close>

definition attr :: "'a option \<Rightarrow> error + 'a" where
  "attr a = (case a of None \<Rightarrow> Inl AttributeError | Some v \<Rightarrow> Inr v)"

text \<open>Python list indexing: a negative index counts from the end.\<close>

definition py_index :: "'a list \<Rightarrow> int \<Rightarrow> error + nat" where
  "py_index xs i = (let n = int (length xs); j = (if i < 0 then n + i else i)
     in if 0 \<le> j \<and> j < n then Inr (nat j) else Inl IndexError)"

definition py_getitem :: "'a list \<Rightarrow> int \<Rightarrow> error + 'a" where
  "py_getitem xs i = ebind (py_index xs i) (\<lambda>j. Inr (xs ! j))"

definition py_setitem :: "'a list \<Rightarrow> int \<Rightarrow> 'a \<Rightarrow> error + 'a list" where
  "py_setitem xs i v = ebind (py_index xs i) (\<lambda>j. Inr (xs[j := v]))"

text \<open>\<^verbatim>\<open>[None] * n\<close>: empty for a negative \<open>n\<close>.\<close>

definition none_list :: "int \<Rightarrow> 'a option list" where
  "none_list n = replicate (nat n) None"

definition alloc :: "'i obj list \<Rightarrow> 'i obj \<Rightarrow> nat \<times> 'i obj list" where
  "alloc h ob = (length h, h @ [ob])"

text \<open>
  Following a reference. Every address in a state comes from \<open>alloc\<close>, so the first
  branch is never taken from the initial state of the loader.
\<close>

definition deref :: "'i obj list \<Rightarrow> nat \<Rightarrow> error + 'i obj" where
  "deref h a = (if length h \<le> a then Inl AttributeError else Inr (h ! a))"

text \<open>
  \<^verbatim>\<open>state.active_thing.x = v\<close> and \<^verbatim>\<open>state.active_thing.x.append(v)\<close>: the update \<open>upd\<close>
  of the object behind the active entity; \<^verbatim>\<open>None\<close> has no attributes.
\<close>

definition update_active :: "'i ctx \<Rightarrow> ('i obj \<Rightarrow> error + 'i obj) \<Rightarrow> error + 'i ctx" where
  "update_active st upd = (case active_thing st of
       None \<Rightarrow> Inl AttributeError
     | Some a \<Rightarrow> ebind (deref (heap st) a) (\<lambda>ob. ebind (upd ob) (\<lambda>ob'.
         Inr (st\<lparr>heap := (heap st)[a := ob']\<rparr>))))"

definition set_offset :: "vec \<Rightarrow> 'i obj \<Rightarrow> error + 'i obj" where
  "set_offset v ob = (case ob of
       OBone b \<Rightarrow> Inr (OBone (b\<lparr>bone_offset := Some v\<rparr>))
     | OVertex x \<Rightarrow> Inr (OVertex (x\<lparr>vertex_offset := Some v\<rparr>))
     | OFramePart p \<Rightarrow> Inr (OFramePart (p\<lparr>part_offset := Some v\<rparr>))
     | _ \<Rightarrow> Inl AttributeError)"

definition set_scale :: "vec \<Rightarrow> 'i obj \<Rightarrow> error + 'i obj" where
  "set_scale v ob = (case ob of
       OBone b \<Rightarrow> Inr (OBone (b\<lparr>bone_scale := Some v\<rparr>))
     | _ \<Rightarrow> Inl AttributeError)"

definition append_matrix :: "vec \<Rightarrow> 'i obj \<Rightarrow> error + 'i obj" where
  "append_matrix v ob = (case ob of
       OBone b \<Rightarrow> ebind (attr (bone_matrix b)) (\<lambda>m. Inr (OBone (b\<lparr>bone_matrix := Some (m @ [v])\<rparr>)))
     | OFramePart p \<Rightarrow> Inr (OFramePart (p\<lparr>part_matrix := part_matrix p @ [v]\<rparr>))
     | _ \<Rightarrow> Inl AttributeError)"

definition set_weights :: "(int \<times> pyfloat) list \<Rightarrow> 'i obj \<Rightarrow> error + 'i obj" where
  "set_weights w ob = (case ob of
       OVertex x \<Rightarrow> Inr (OVertex (x\<lparr>vertex_weights := Some w\<rparr>))
     | _ \<Rightarrow> Inl AttributeError)"

text \<open>\<^verbatim>\<open>state.active_thing.weights\<close>, evaluated before the argument of \<^verbatim>\<open>append\<close>.\<close>

definition get_weights :: "'i obj \<Rightarrow> error + (int \<times> pyfloat) list" where
  "get_weights ob = (case ob of
       OVertex x \<Rightarrow> attr (vertex_weights x)
     | _ \<Rightarrow> Inl AttributeError)"

definition set_normal :: "vec \<Rightarrow> 'i obj \<Rightarrow> error + 'i obj" where
  "set_normal v ob = (case ob of
       OFaceVertex x \<Rightarrow> Inr (OFaceVertex (x\<lparr>fv_normal := Some v\<rparr>))
     | _ \<Rightarrow> Inl AttributeError)"

definition set_color :: "vec \<Rightarrow> 'i obj \<Rightarrow> error + 'i obj" where
  "set_color v ob = (case ob of
       OFaceVertex x \<Rightarrow> Inr (OFaceVertex (x\<lparr>fv_color := Some v\<rparr>))
     | OMaterial m \<Rightarrow> Inr (OMaterial (m\<lparr>mat_color := Some v\<rparr>))
     | _ \<Rightarrow> Inl AttributeError)"

definition set_uv :: "vec \<Rightarrow> 'i obj \<Rightarrow> error + 'i obj" where
  "set_uv v ob = (case ob of
       OFaceVertex x \<Rightarrow> Inr (OFaceVertex (x\<lparr>fv_uv := Some v\<rparr>))
     | _ \<Rightarrow> Inl AttributeError)"

text \<open>An attribute of a material: \<open>upd\<close> is the record update of the field.\<close>

definition set_material :: "('i material \<Rightarrow> 'i material) \<Rightarrow> 'i obj \<Rightarrow> error + 'i obj" where
  "set_material upd ob = (case ob of
       OMaterial m \<Rightarrow> Inr (OMaterial (upd m))
     | _ \<Rightarrow> Inl AttributeError)"

section \<open>The block handlers of the loader\<close>

text \<open>
  Each handler is a closure of \<^verbatim>\<open>__xbin_loadfile_internal__\<close> over \<^verbatim>\<open>self\<close>, the
  \<^verbatim>\<open>LoadState\<close>, the dummy mesh and \<^verbatim>\<open>expected_type\<close>; here it takes the state and returns
  the new one. \<open>read_value rd st k\<close> runs the reader \<open>rd\<close> on the file handle and passes
  the value read and the state with the moved handle to \<open>k\<close>.
\<close>

definition read_value ::
  "(bytesio \<Rightarrow> error + 'a \<times> bytesio) \<Rightarrow> 'i ctx \<Rightarrow> ('a \<Rightarrow> 'i ctx \<Rightarrow> error + 'i ctx) \<Rightarrow> 'i ctx res" where
  "read_value rd st k = lift (ebind (rd (fh st)) (\<lambda>(v, f). k v (st\<lparr>fh := f\<rparr>)))"

definition read_string_value ::
  "(bytesio \<Rightarrow> ('a \<times> bytesio) res) \<Rightarrow> 'i ctx \<Rightarrow> ('a \<Rightarrow> 'i ctx \<Rightarrow> error + 'i ctx) \<Rightarrow> 'i ctx res" where
  "read_string_value rd st k = rbind (rd (fh st)) (\<lambda>(v, f). lift (k v (st\<lparr>fh := f\<rparr>)))"

definition InitModel :: "asset \<Rightarrow> 'i ctx \<Rightarrow> 'i ctx res" where
  "InitModel expected_type st = read_value LoadInt16Block st (\<lambda>_ st.
     if expected_type \<noteq> MODEL then Inl (AssetTypeMismatch MODEL expected_type)
     else Inr (st\<lparr>asset_type := Some MODEL\<rparr>))"

definition InitAnim :: "asset \<Rightarrow> 'i ctx \<Rightarrow> 'i ctx res" where
  "InitAnim expected_type st = read_value LoadInt16Block st (\<lambda>_ st.
     if expected_type \<noteq> ANIM then Inl (AssetTypeMismatch ANIM expected_type)
     else Inr (st\<lparr>asset_type := Some ANIM\<rparr>))"

definition LoadBoneCount :: "'i ctx \<Rightarrow> 'i ctx res" where
  "LoadBoneCount st = read_value LoadInt16Block st (\<lambda>n st.
     Inr (st\<lparr>self_bones := Some (none_list n)\<rparr>))"

definition LoadCosmeticCount :: "'i ctx \<Rightarrow> 'i ctx res" where
  "LoadCosmeticCount st = read_value LoadInt32Block st (\<lambda>n st.
     Inr (st\<lparr>self_cosmetics := Some n\<rparr>))"

definition LoadBoneInfo :: "'i ctx \<Rightarrow> 'i ctx res" where
  "LoadBoneInfo st = read_string_value LoadBoneBlock st (\<lambda>(index, parent, name) st.
     let bone = Bone name parent in
     ebind (attr (self_bones st)) (\<lambda>bs.
     ebind (attr (self_cosmetics st)) (\<lambda>c.
     let bone = (if int (length bs) - c \<le> index then bone\<lparr>bone_cosmetic := True\<rparr> else bone);
         (a, h) = alloc (heap st) (OBone bone)
     in ebind (py_setitem bs index (Some a)) (\<lambda>bs'.
        Inr (st\<lparr>heap := h, self_bones := Some bs'\<rparr>)))))"

definition set_matrix_empty :: "'i obj \<Rightarrow> error + 'i obj" where
  "set_matrix_empty ob = (case ob of
       OBone b \<Rightarrow> Inr (OBone (b\<lparr>bone_matrix := Some []\<rparr>))
     | _ \<Rightarrow> Inl AttributeError)"

definition LoadBoneIndex :: "'i ctx \<Rightarrow> 'i ctx res" where
  "LoadBoneIndex st = read_value LoadInt16Block st (\<lambda>index st.
     ebind (attr (self_bones st)) (\<lambda>bs.
     ebind (py_getitem bs index) (\<lambda>bone.
     ebind (update_active (st\<lparr>active_thing := bone\<rparr>) set_matrix_empty) (\<lambda>st'.
     Inr st'))))"

definition LoadOffset :: "'i ctx \<Rightarrow> 'i ctx res" where
  "LoadOffset st = read_value LoadVec3Block st (\<lambda>data st. update_active st (set_offset data))"

definition LoadBoneScale :: "'i ctx \<Rightarrow> 'i ctx res" where
  "LoadBoneScale st = read_value LoadVec3Block st (\<lambda>data st. update_active st (set_scale data))"

definition LoadBoneMatrix :: "'i ctx \<Rightarrow> 'i ctx res" where
  "LoadBoneMatrix st = read_value LoadShortVec3Block st (\<lambda>data st.
     update_active st (append_matrix data))"

definition LoadVertexCount :: "'i ctx \<Rightarrow> 'i ctx res" where
  "LoadVertexCount st = read_value LoadUInt16Block st (\<lambda>n st.
     Inr (st\<lparr>dummy_mesh := (dummy_mesh st)\<lparr>mesh_verts := none_list n\<rparr>\<rparr>))"

definition LoadVertex32Count :: "'i ctx \<Rightarrow> 'i ctx res" where
  "LoadVertex32Count st = read_value LoadInt32Block st (\<lambda>n st.
     Inr (st\<lparr>dummy_mesh := (dummy_mesh st)\<lparr>mesh_verts := none_list n\<rparr>\<rparr>))"

text \<open>
  The body shared by \<^verbatim>\<open>LoadVertexIndex\<close> and \<^verbatim>\<open>LoadVertex32Index\<close>, which differ in the
  reader of the index only.
\<close>

definition vertex_index_body :: "int \<Rightarrow> 'i ctx \<Rightarrow> error + 'i ctx" where
  "vertex_index_body index st = (case active_tri st of
       None \<Rightarrow>
         (let (vertex, h) = alloc (heap st) (OVertex Vertex) in
          ebind (py_setitem (mesh_verts (dummy_mesh st)) index (Some vertex)) (\<lambda>vs.
          Inr (st\<lparr>heap := h, dummy_mesh := (dummy_mesh st)\<lparr>mesh_verts := vs\<rparr>,
                  active_thing := Some vertex\<rparr>)))
     | Some tri \<Rightarrow>
         (let (face_vert, h) = alloc (heap st) (OFaceVertex (FaceVertex index)) in
          ebind (deref h tri) (\<lambda>ob. case ob of
            OFace t \<Rightarrow>
              Inr (st\<lparr>heap := h[tri := OFace (t\<lparr>face_indices := face_indices t @ [face_vert]\<rparr>)],
                      active_thing := Some face_vert\<rparr>)
          | _ \<Rightarrow> Inl AttributeError)))"

definition LoadVertexIndex :: "'i ctx \<Rightarrow> 'i ctx res" where
  "LoadVertexIndex st = read_value LoadUInt16Block st vertex_index_body"

definition LoadVertex32Index :: "'i ctx \<Rightarrow> 'i ctx res" where
  "LoadVertex32Index st = read_value LoadInt32Block st vertex_index_body"

definition LoadVertexWeightCount :: "'i ctx \<Rightarrow> 'i ctx res" where
  "LoadVertexWeightCount st = read_value LoadInt16Block st (\<lambda>_ st.
     update_active st (set_weights []))"

text \<open>
  \<^verbatim>\<open>state.active_thing.weights.append(XBlock.LoadVertexWeightBlock(file))\<close>: the list is
  looked up first, then the block is read.
\<close>

definition LoadVertexWeight :: "'i ctx \<Rightarrow> 'i ctx res" where
  "LoadVertexWeight st = lift (
     ebind (attr (active_thing st)) (\<lambda>a.
     ebind (deref (heap st) a) (\<lambda>ob.
     ebind (get_weights ob) (\<lambda>ws.
     ebind (LoadVertexWeightBlock (fh st)) (\<lambda>(w, f).
     update_active (st\<lparr>fh := f\<rparr>) (set_weights (ws @ [w])))))))"

definition LoadTriCount :: "'i ctx \<Rightarrow> 'i ctx res" where
  "LoadTriCount st = read_value LoadInt32Block st (\<lambda>_ st.
     Inr (st\<lparr>dummy_mesh := (dummy_mesh st)\<lparr>mesh_faces := []\<rparr>\<rparr>))"

text \<open>The body shared by \<^verbatim>\<open>LoadTriInfo\<close> and \<^verbatim>\<open>LoadTri16Info\<close>.\<close>

definition tri_info_body :: "int \<times> int \<Rightarrow> 'i ctx \<Rightarrow> error + 'i ctx" where
  "tri_info_body ids st = (case ids of (object_index, material_index) \<Rightarrow>
     (let (tri, h) = alloc (heap st) (OFace (Face object_index material_index)) in
      Inr (st\<lparr>heap := h,
              dummy_mesh := (dummy_mesh st)\<lparr>mesh_faces := mesh_faces (dummy_mesh st) @ [tri]\<rparr>,
              active_tri := Some tri\<rparr>)))"

definition LoadTriInfo :: "'i ctx \<Rightarrow> 'i ctx res" where
  "LoadTriInfo st = read_value LoadTriangleBlock st tri_info_body"

definition LoadTri16Info :: "'i ctx \<Rightarrow> 'i ctx res" where
  "LoadTri16Info st = read_value LoadTriangle16Block st tri_info_body"

definition LoadTriVertNormal :: "'i ctx \<Rightarrow> 'i ctx res" where
  "LoadTriVertNormal st = read_value LoadShortVec3Block st (\<lambda>v st.
     update_active st (set_normal v))"

definition LoadTriVertColor :: "'i ctx \<Rightarrow> 'i ctx res" where
  "LoadTriVertColor st = read_value LoadColorBlock st (\<lambda>v st. update_active st (set_color v))"

definition LoadTriVertUV :: "'i ctx \<Rightarrow> 'i ctx res" where
  "LoadTriVertUV st = read_value LoadUVBlock st (\<lambda>v st. update_active st (set_uv v))"

definition LoadObjectCount :: "'i ctx \<Rightarrow> 'i ctx res" where
  "LoadObjectCount st = read_value LoadInt16Block st (\<lambda>n st.
     Inr (st\<lparr>self_meshes := Some (none_list n)\<rparr>))"

definition LoadObjectInfo :: "'i ctx \<Rightarrow> 'i ctx res" where
  "LoadObjectInfo st = read_string_value LoadObjectBlock st (\<lambda>(index, name) st.
     ebind (attr (self_meshes st)) (\<lambda>ms.
     ebind (py_setitem ms index (Some (Mesh name))) (\<lambda>ms'.
     Inr (st\<lparr>self_meshes := Some ms'\<rparr>))))"

definition LoadMaterialCount :: "'i ctx \<Rightarrow> 'i ctx res" where
  "LoadMaterialCount st = read_value LoadInt16Block st (\<lambda>n st.
     Inr (st\<lparr>self_materials := Some (none_list n)\<rparr>))"

definition LoadMaterialInfo :: "(pystr \<Rightarrow> 'i) \<Rightarrow> 'i ctx \<Rightarrow> 'i ctx res" where
  "LoadMaterialInfo deserialize_image_string st =
     read_string_value (LoadMaterialBlock deserialize_image_string) st
       (\<lambda>(index, name, type, images) st.
     let (material, h) = alloc (heap st) (OMaterial (Material name type images)) in
     ebind (attr (self_materials st)) (\<lambda>ms.
     ebind (py_setitem ms index (Some material)) (\<lambda>ms'.
     Inr (st\<lparr>heap := h, self_materials := Some ms', active_thing := Some material\<rparr>))))"

definition LoadMaterialTransparency :: "'i ctx \<Rightarrow> 'i ctx res" where
  "LoadMaterialTransparency st = read_value LoadVec4Block st (\<lambda>v st.
     update_active st (set_material (\<lambda>m. m\<lparr>mat_transparency := Some v\<rparr>)))"

definition LoadMaterialAmbientColor :: "'i ctx \<Rightarrow> 'i ctx res" where
  "LoadMaterialAmbientColor st = read_value LoadVec4Block st (\<lambda>v st.
     update_active st (set_material (\<lambda>m. m\<lparr>mat_color_ambient := Some v\<rparr>)))"

definition LoadMaterialIncandescence :: "'i ctx \<Rightarrow> 'i ctx res" where
  "LoadMaterialIncandescence st = read_value LoadVec4Block st (\<lambda>v st.
     update_active st (set_material (\<lambda>m. m\<lparr>mat_incandescence := Some v\<rparr>)))"

definition LoadMaterialCoeffs :: "'i ctx \<Rightarrow> 'i ctx res" where
  "LoadMaterialCoeffs st = read_value LoadVec2Block st (\<lambda>v st.
     update_active st (set_material (\<lambda>m. m\<lparr>mat_coeffs := Some v\<rparr>)))"

definition LoadMaterialGlow :: "'i ctx \<Rightarrow> 'i ctx res" where
  "LoadMaterialGlow st = read_value LoadVec2Block st (\<lambda>v st.
     update_active st (set_material (\<lambda>m. m\<lparr>mat_glow := Some v\<rparr>)))"

definition LoadMaterialRefractive :: "'i ctx \<Rightarrow> 'i ctx res" where
  "LoadMaterialRefractive st = read_value LoadVec2Block st (\<lambda>v st.
     update_active st (set_material (\<lambda>m. m\<lparr>mat_refractive := Some v\<rparr>)))"

definition LoadMaterialSpecularColor :: "'i ctx \<Rightarrow> 'i ctx res" where
  "LoadMaterialSpecularColor st = read_value LoadVec4Block st (\<lambda>v st.
     update_active st (set_material (\<lambda>m. m\<lparr>mat_color_specular := Some v\<rparr>)))"

definition LoadMaterialReflectiveColor :: "'i ctx \<Rightarrow> 'i ctx res" where
  "LoadMaterialReflectiveColor st = read_value LoadVec4Block st (\<lambda>v st.
     update_active st (set_material (\<lambda>m. m\<lparr>mat_color_reflective := Some v\<rparr>)))"

definition LoadMaterialReflective :: "'i ctx \<Rightarrow> 'i ctx res" where
  "LoadMaterialReflective st = read_value LoadVec2Block st (\<lambda>v st.
     update_active st (set_material (\<lambda>m. m\<lparr>mat_reflective := Some v\<rparr>)))"

definition LoadMaterialBlinn :: "'i ctx \<Rightarrow> 'i ctx res" where
  "LoadMaterialBlinn st = read_value LoadVec2Block st (\<lambda>v st.
     update_active st (set_material (\<lambda>m. m\<lparr>mat_blinn := Some v\<rparr>)))"

definition LoadMaterialPhong :: "'i ctx \<Rightarrow> 'i ctx res" where
  "LoadMaterialPhong st = read_value LoadFloatBlock st (\<lambda>v st.
     update_active st (set_material (\<lambda>m. m\<lparr>mat_phong := Some (PhongTuple v)\<rparr>)))"

subsection \<open>Animation\<close>

definition LoadPartCount :: "'i ctx \<Rightarrow> 'i ctx res" where
  "LoadPartCount st = read_value LoadInt16Block st (\<lambda>n st.
     Inr (st\<lparr>self_parts := Some (none_list n)\<rparr>))"

definition LoadPartInfo :: "'i ctx \<Rightarrow> 'i ctx res" where
  "LoadPartInfo st = read_string_value LoadObjectBlock st (\<lambda>(index, name) st.
     ebind (attr (self_parts st)) (\<lambda>ps.
     ebind (py_setitem ps index (Some (PartInfo name))) (\<lambda>ps'.
     Inr (st\<lparr>self_parts := Some ps'\<rparr>))))"

definition LoadPartIndex :: "'i ctx \<Rightarrow> 'i ctx res" where
  "LoadPartIndex st = read_value LoadInt16Block st (\<lambda>index st.
     let (frame_part, h) = alloc (heap st) (OFramePart FramePart) in
     ebind (attr (active_frame st)) (\<lambda>fr.
     ebind (deref h fr) (\<lambda>ob. case ob of
       OFrame t \<Rightarrow>
         ebind (py_setitem (frame_parts t) index (Some frame_part)) (\<lambda>ps.
         Inr (st\<lparr>heap := h[fr := OFrame (t\<lparr>frame_parts := ps\<rparr>)],
                 active_thing := Some frame_part\<rparr>))
     | _ \<Rightarrow> Inl AttributeError)))"

definition LoadFramerate :: "'i ctx \<Rightarrow> 'i ctx res" where
  "LoadFramerate st = read_value LoadInt16Block st (\<lambda>n st.
     Inr (st\<lparr>self_framerate := Some n\<rparr>))"

definition LoadFrameCount :: "'i ctx \<Rightarrow> 'i ctx res" where
  "LoadFrameCount st = read_value LoadInt32Block st (\<lambda>_ st. Inr st)"

definition LoadFrameIndex :: "'i ctx \<Rightarrow> 'i ctx res" where
  "LoadFrameIndex st = read_value LoadInt32Block st (\<lambda>n st.
     ebind (attr (self_parts st)) (\<lambda>ps.
     let (frame, h) = alloc (heap st)
           (OFrame \<lparr>frame_frame = n, frame_parts = none_list (int (length ps))\<rparr>) in
     ebind (attr (self_frames st)) (\<lambda>fs.
     Inr (st\<lparr>heap := h, active_frame := Some frame, self_frames := Some (fs @ [frame])\<rparr>))))"

text \<open>The dummy frame is made and activated before the block is read.\<close>

definition LoadNotetracksBegin :: "'i ctx \<Rightarrow> 'i ctx res" where
  "LoadNotetracksBegin st = lift (
     ebind (attr (self_parts st)) (\<lambda>ps.
     let (dummy_frame, h) = alloc (heap st)
           (OFrame \<lparr>frame_frame = - 1, frame_parts = none_list (int (length ps))\<rparr>) in
     ebind (LoadInt16Block (fh st)) (\<lambda>(_, f).
     Inr (st\<lparr>fh := f, heap := h, active_frame := Some dummy_frame\<rparr>))))"

definition LoadNoteFrame :: "'i ctx \<Rightarrow> 'i ctx res" where
  "LoadNoteFrame st = read_string_value LoadNoteFrameBlock st (\<lambda>(frame, string) st.
     ebind (attr (self_notes st)) (\<lambda>ns.
     Inr (st\<lparr>self_notes := Some (ns @ [Note frame string])\<rparr>)))"

text \<open>The two readers of \<^verbatim>\<open>XBlock\<close> that the table names directly: the value is dropped.\<close>

definition SkipInt16Block :: "'i ctx \<Rightarrow> 'i ctx res" where
  "SkipInt16Block st = read_value LoadInt16Block st (\<lambda>_ st. Inr st)"

definition SkipCommentBlock :: "'i ctx \<Rightarrow> 'i ctx res" where
  "SkipCommentBlock st = read_string_value LoadCommentBlock st (\<lambda>_ st. Inr st)"

section \<open>The tag table and the block loop\<close>

text \<open>
  The dictionary \<^verbatim>\<open>hashmap\<close> maps a tag to its display name and its handler, \<open>None\<close> for
  the tags that are known and not implemented. A handler is named by a constructor and
  run by \<open>run_handler\<close>.
\<close>

datatype handler =
    H_LoadCommentBlock | H_InitModel | H_InitAnim | H_LoadInt16Block
  | H_LoadBoneCount | H_LoadCosmeticCount | H_LoadBoneInfo | H_LoadBoneIndex
  | H_LoadOffset | H_LoadBoneScale | H_LoadBoneMatrix
  | H_LoadVertexCount | H_LoadVertex32Count | H_LoadVertexIndex | H_LoadVertex32Index
  | H_LoadVertexWeightCount | H_LoadVertexWeight
  | H_LoadTriCount | H_LoadTriInfo | H_LoadTri16Info
  | H_LoadTriVertNormal | H_LoadTriVertColor | H_LoadTriVertUV
  | H_LoadObjectCount | H_LoadObjectInfo
  | H_LoadMaterialCount | H_LoadMaterialInfo
  | H_LoadMaterialTransparency | H_LoadMaterialAmbientColor | H_LoadMaterialIncandescence
  | H_LoadMaterialCoeffs | H_LoadMaterialGlow | H_LoadMaterialRefractive
  | H_LoadMaterialSpecularColor | H_LoadMaterialReflectiveColor | H_LoadMaterialReflective
  | H_LoadMaterialBlinn | H_LoadMaterialPhong
  | H_LoadPartCount | H_LoadPartInfo | H_LoadPartIndex | H_LoadFramerate
  | H_LoadFrameCount | H_LoadFrameIndex | H_LoadNotetracksBegin | H_LoadNoteFrame

definition hashmap_items :: "(int \<times> string \<times> handler option) list" where
  "hashmap_items = [
     (0xC355, ''Comment block'', Some H_LoadCommentBlock),
     (0x46C8, ''Model identification block'', Some H_InitModel),
     (0x7AAC, ''Animation block'', Some H_InitAnim),
     (0x24D1, ''Version block'', Some H_LoadInt16Block),
     (0x76BA, ''Bone count block'', Some H_LoadBoneCount),
     (0x7836, ''Cosmetic bone count block'', Some H_LoadCosmeticCount),
     (0xF099, ''Bone block'', Some H_LoadBoneInfo),
     (0xDD9A, ''Bone index block'', Some H_LoadBoneIndex),
     (0x9383, ''Vert / Bone offset block'', Some H_LoadOffset),
     (0x1C56, ''Bone scale block'', Some H_LoadBoneScale),
     (0xDCFD, ''Bone x matrix'', Some H_LoadBoneMatrix),
     (0xCCDC, ''Bone y matrix'', Some H_LoadBoneMatrix),
     (0xFCBF, ''Bone z matrix'', Some H_LoadBoneMatrix),
     (0x950D, ''Number of verts'', Some H_LoadVertexCount),
     (0x2AEC, ''Number of verts32'', Some H_LoadVertex32Count),
     (0x8F03, ''Vert info block marker'', Some H_LoadVertexIndex),
     (0xB097, ''Vert32 info block marker'', Some H_LoadVertex32Index),
     (0xEA46, ''Vert weighted bones count'', Some H_LoadVertexWeightCount),
     (0xF1AB, ''Vert bone weight info'', Some H_LoadVertexWeight),
     (0xBE92, ''Number of faces block'', Some H_LoadTriCount),
     (0x562F, ''Triangle info block'', Some H_LoadTriInfo),
     (0x6711, ''Triangle info (16) block'', Some H_LoadTri16Info),
     (0x89EC, ''Normal info'', Some H_LoadTriVertNormal),
     (0x6DD8, ''Color info'', Some H_LoadTriVertColor),
     (0x1AD4, ''UV info'', Some H_LoadTriVertUV),
     (0x62AF, ''Number of objects block'', Some H_LoadObjectCount),
     (0x87D4, ''Object info block'', Some H_LoadObjectInfo),
     (0xA1B2, ''Number of materials'', Some H_LoadMaterialCount),
     (0xA700, ''Material info block'', Some H_LoadMaterialInfo),
     (0x6DAB, ''Material transparency'', Some H_LoadMaterialTransparency),
     (0x37FF, ''Material ambient color'', Some H_LoadMaterialAmbientColor),
     (0x4265, ''Material incandescence'', Some H_LoadMaterialIncandescence),
     (0xC835, ''Material coeffs'', Some H_LoadMaterialCoeffs),
     (0xFE0C, ''Material glow'', Some H_LoadMaterialGlow),
     (0x7E24, ''Material refractive'', Some H_LoadMaterialRefractive),
     (0x317C, ''Material specular color'', Some H_LoadMaterialSpecularColor),
     (0xE593, ''Material reflective color'', Some H_LoadMaterialReflectiveColor),
     (0x7D76, ''Material reflective'', Some H_LoadMaterialReflective),
     (0x83C7, ''Material blinn'', Some H_LoadMaterialBlinn),
     (0x5CD2, ''Material phong'', Some H_LoadMaterialPhong),
     (0x9279, ''NumParts block'', Some H_LoadPartCount),
     (0x360B, ''Part info block'', Some H_LoadPartInfo),
     (0x745A, ''Part index block'', Some H_LoadPartIndex),
     (0x92D3, ''Framerate block'', Some H_LoadFramerate),
     (0xB917, ''NumFrames block'', Some H_LoadFrameCount),
     (0xC723, ''Frame block'', Some H_LoadFrameIndex),
     (0xC7F3, ''Notetrack section block'', Some H_LoadNotetracksBegin),
     (0x9016, ''NumTracks block'', Some H_LoadInt16Block),
     (0x7A6C, ''NumKeys block'', Some H_LoadInt16Block),
     (0x4643, ''Notetrack block'', Some H_LoadInt16Block),
     (0x1675, ''Note frame block'', Some H_LoadNoteFrame),
     (0xBCD4, ''FIRSTFRAME'', None),
     (0x1FC2, ''NUMSBONES'', None),
     (0xB35E, ''NUMSWEIGHTS'', None),
     (0xEF69, ''QUATERNION'', None),
     (0xA65B, ''NUMIKPITCHLAYERS'', None),
     (0x1D7D, ''IKPITCHLAYER'', None),
     (0xA58B, ''ROTATION'', None),
     (0x6EEE, ''EXTRA'', None)]"

definition hashmap :: "int \<Rightarrow> (string \<times> handler option) option" where
  "hashmap = map_of hashmap_items"

definition run_handler :: "(pystr \<Rightarrow> 'i) \<Rightarrow> asset \<Rightarrow> handler \<Rightarrow> 'i ctx \<Rightarrow> 'i ctx res" where
  "run_handler deserialize_image_string expected_type h st = (case h of
       H_LoadCommentBlock \<Rightarrow> SkipCommentBlock st
     | H_InitModel \<Rightarrow> InitModel expected_type st
     | H_InitAnim \<Rightarrow> InitAnim expected_type st
     | H_LoadInt16Block \<Rightarrow> SkipInt16Block st
     | H_LoadBoneCount \<Rightarrow> LoadBoneCount st
     | H_LoadCosmeticCount \<Rightarrow> LoadCosmeticCount st
     | H_LoadBoneInfo \<Rightarrow> LoadBoneInfo st
     | H_LoadBoneIndex \<Rightarrow> LoadBoneIndex st
     | H_LoadOffset \<Rightarrow> LoadOffset st
     | H_LoadBoneScale \<Rightarrow> LoadBoneScale st
     | H_LoadBoneMatrix \<Rightarrow> LoadBoneMatrix st
     | H_LoadVertexCount \<Rightarrow> LoadVertexCount st
     | H_LoadVertex32Count \<Rightarrow> LoadVertex32Count st
     | H_LoadVertexIndex \<Rightarrow> LoadVertexIndex st
     | H_LoadVertex32Index \<Rightarrow> LoadVertex32Index st
     | H_LoadVertexWeightCount \<Rightarrow> LoadVertexWeightCount st
     | H_LoadVertexWeight \<Rightarrow> LoadVertexWeight st
     | H_LoadTriCount \<Rightarrow> LoadTriCount st
     | H_LoadTriInfo \<Rightarrow> LoadTriInfo st
     | H_LoadTri16Info \<Rightarrow> LoadTri16Info st
     | H_LoadTriVertNormal \<Rightarrow> LoadTriVertNormal st
     | H_LoadTriVertColor \<Rightarrow> LoadTriVertColor st
     | H_LoadTriVertUV \<Rightarrow> LoadTriVertUV st
     | H_LoadObjectCount \<Rightarrow> LoadObjectCount st
     | H_LoadObjectInfo \<Rightarrow> LoadObjectInfo st
     | H_LoadMaterialCount \<Rightarrow> LoadMaterialCount st
     | H_LoadMaterialInfo \<Rightarrow> LoadMaterialInfo deserialize_image_string st
     | H_LoadMaterialTransparency \<Rightarrow> LoadMaterialTransparency st
     | H_LoadMaterialAmbientColor \<Rightarrow> LoadMaterialAmbientColor st
     | H_LoadMaterialIncandescence \<Rightarrow> LoadMaterialIncandescence st
     | H_LoadMaterialCoeffs \<Rightarrow> LoadMaterialCoeffs st
     | H_LoadMaterialGlow \<Rightarrow> LoadMaterialGlow st
     | H_LoadMaterialRefractive \<Rightarrow> LoadMaterialRefractive st
     | H_LoadMaterialSpecularColor \<Rightarrow> LoadMaterialSpecularColor st
     | H_LoadMaterialReflectiveColor \<Rightarrow> LoadMaterialReflectiveColor st
     | H_LoadMaterialReflective \<Rightarrow> LoadMaterialReflective st
     | H_LoadMaterialBlinn \<Rightarrow> LoadMaterialBlinn st
     | H_LoadMaterialPhong \<Rightarrow> LoadMaterialPhong st
     | H_LoadPartCount \<Rightarrow> LoadPartCount st
     | H_LoadPartInfo \<Rightarrow> LoadPartInfo st
     | H_LoadPartIndex \<Rightarrow> LoadPartIndex st
     | H_LoadFramerate \<Rightarrow> LoadFramerate st
     | H_LoadFrameCount \<Rightarrow> LoadFrameCount st
     | H_LoadFrameIndex \<Rightarrow> LoadFrameIndex st
     | H_LoadNotetracksBegin \<Rightarrow> LoadNotetracksBegin st
     | H_LoadNoteFrame \<Rightarrow> LoadNoteFrame st)"

text \<open>
  The loop \<^verbatim>\<open>while data:\<close> of \<^verbatim>\<open>__xbin_loadfile_internal__\<close>. \<open>d\<close> is the result of the
  last \<^verbatim>\<open>file.read(2)\<close>; a single byte left unpacks with \<^verbatim>\<open>struct.error\<close>. The offset
  of an unimplemented block is the position after its tag, the offset of an unknown
  tag the position of the tag.
\<close>

partial_function (option) read_blocks ::
  "(pystr \<Rightarrow> 'i) \<Rightarrow> asset \<Rightarrow> 'i ctx \<Rightarrow> bytes \<Rightarrow> (error + 'i ctx) option" where
  "read_blocks deserialize_image_string expected_type st d =
     (if d = [] then Some (Inr st)
      else (case unpack_H d of
          Inl e \<Rightarrow> Some (Inl e)
        | Inr block_hash \<Rightarrow>
           (case hashmap block_hash of
              None \<Rightarrow> Some (Inl (UnknownBlockHash block_hash (ftell (fh st) - 2)))
            | Some (name, None) \<Rightarrow> Some (Inl (UnimplementedBlock name (ftell (fh st))))
            | Some (name, Some h) \<Rightarrow>
               (case run_handler deserialize_image_string expected_type h st of
                  None \<Rightarrow> None
                | Some (Inl e) \<Rightarrow> Some (Inl e)
                | Some (Inr st') \<Rightarrow>
                   (case fread (fh st') 2 of (d', f') \<Rightarrow>
                      read_blocks deserialize_image_string expected_type (st'\<lparr>fh := f'\<rparr>) d')))))"

declare read_blocks.simps [code]

text \<open>
  \<^verbatim>\<open>__xbin_loadfile_internal__(self, file, expected_type)\<close>. \<open>self0\<close> gives the attributes
  of \<^verbatim>\<open>self\<close> and the objects that exist before the call; the file handle, the dummy
  mesh and the \<^verbatim>\<open>LoadState\<close> are set up here. The result is the final state; the
  Python function returns its \<open>dummy_mesh\<close> when its \<open>asset_type\<close> is \<open>MODEL\<close>.
\<close>

definition xbin_loadfile_internal ::
  "(pystr \<Rightarrow> 'i) \<Rightarrow> 'i ctx \<Rightarrow> bytesio \<Rightarrow> asset \<Rightarrow> (error + 'i ctx) option" where
  "xbin_loadfile_internal deserialize_image_string self0 file expected_type =
     (let st = self0\<lparr>dummy_mesh := Mesh [0x24, 0x64, 0x65, 0x66, 0x61, 0x75, 0x6C, 0x74],
                     active_thing := None, active_tri := None, active_frame := None,
                     asset_type := None\<rparr>
      in case fread file 2 of (d, f) \<Rightarrow>
           read_blocks deserialize_image_string expected_type (st\<lparr>fh := f\<rparr>) d)"

section \<open>The container\<close>

definition magic :: bytes where
  "magic = [0x2A, 0x4C, 0x5A, 0x34, 0x2A]"


text \<open>
  \<^verbatim>\<open>__compress_internal__\<close>: the magic, the length of the input as \<^verbatim>\<open>'I'\<close>, the compressed
  input. \<^verbatim>\<open>lz4.compress\<close> is the parameter \<open>compress\<close>.
\<close>

definition compress_internal :: "(bytes \<Rightarrow> bytes) \<Rightarrow> bytes \<Rightarrow> error + bytes" where
  "compress_internal compress in_file =
     ebind (pack_I (int (length in_file))) (\<lambda>size_bytes.
     Inr (magic @ size_bytes @ compress in_file))"

section \<open>XBlock: the block writers\<close>

text \<open>
  A writer returns the bytes of its \<^verbatim>\<open>struct.pack\<close>, one block, or the exception.
  \<open>pack_seq\<close> joins the fields of one format string in their order.
\<close>

fun pack_seq :: "(error + bytes) list \<Rightarrow> error + bytes" where
  "pack_seq [] = Inr []"
| "pack_seq (p # ps) = ebind p (\<lambda>b. ebind (pack_seq ps) (\<lambda>bs. Inr (b @ bs)))"

text \<open>
  \<^verbatim>\<open>*v\<close> and \<^verbatim>\<open>for x in v\<close> on a value that is \<^verbatim>\<open>None\<close> raise \<^verbatim>\<open>TypeError\<close>, as do
  \<^verbatim>\<open>len(None)\<close> and \<^verbatim>\<open>None[i]\<close>.
\<close>

definition iterable :: "'a list option \<Rightarrow> error + 'a list" where
  "iterable v = (case v of None \<Rightarrow> Inl TypeError | Some xs \<Rightarrow> Inr xs)"

text \<open>\<^verbatim>\<open>'%ds' % padded(len(s) + 1)\<close> with the string \<open>s\<close>.\<close>

definition pack_padded_string :: "bytes \<Rightarrow> bytes" where
  "pack_padded_string s = pack_s (nat (padded (int (length s) + 1))) s"

definition WriteMetaObjectInfo :: "int \<Rightarrow> int \<Rightarrow> pystr \<Rightarrow> error + bytes" where
  "WriteMetaObjectInfo hash index name =
     pack_seq [pack_H hash, pack_h index, Inr (pack_padded_string name)]"

definition WriteMetaInt16Block :: "int \<Rightarrow> int \<Rightarrow> error + bytes" where
  "WriteMetaInt16Block hash v = pack_seq [pack_H hash, pack_h v]"

definition WriteMetaUInt16Block :: "int \<Rightarrow> int \<Rightarrow> error + bytes" where
  "WriteMetaUInt16Block hash v = pack_seq [pack_H hash, pack_H v]"

definition WriteMetaInt32Block :: "int \<Rightarrow> int \<Rightarrow> error + bytes" where
  "WriteMetaInt32Block hash v = pack_seq [pack_H hash, Inr pack_xx, pack_I v]"

text \<open>
  \<^verbatim>\<open>struct.pack('Hxxf', _hash, flt)\<close>: an argument that is not a number (a tuple,
  \<^verbatim>\<open>None\<close>) is a \<^verbatim>\<open>struct.error\<close>.
\<close>

definition WriteMetaFloatBlock :: "int \<Rightarrow> phong_value option \<Rightarrow> error + bytes" where
  "WriteMetaFloatBlock hash flt = (case flt of
       Some (PhongFloat x) \<Rightarrow> pack_seq [pack_H hash, Inr pack_xx, pack_f x]
     | _ \<Rightarrow> Inl StructError)"

text \<open>\<^verbatim>\<open>WriteMetaVec2Block\<close>, \<^verbatim>\<open>WriteMetaVec3Block\<close>, \<^verbatim>\<open>WriteMetaVec4Block\<close>: \<open>n\<close> floats.\<close>

definition WriteMetaVecBlock :: "nat \<Rightarrow> int \<Rightarrow> vec option \<Rightarrow> error + bytes" where
  "WriteMetaVecBlock n hash v = ebind (iterable v) (\<lambda>xs.
     pack_seq [pack_H hash, Inr pack_xx, pack_n n pack_f xs])"

definition WriteMetaVec2Block :: "int \<Rightarrow> vec option \<Rightarrow> error + bytes" where
  "WriteMetaVec2Block hash v = WriteMetaVecBlock 2 hash v"

definition WriteMetaVec3Block :: "int \<Rightarrow> vec option \<Rightarrow> error + bytes" where
  "WriteMetaVec3Block hash v = WriteMetaVecBlock 3 hash v"

definition WriteMetaVec4Block :: "int \<Rightarrow> vec option \<Rightarrow> error + bytes" where
  "WriteMetaVec4Block hash v = WriteMetaVecBlock 4 hash v"

definition WriteCommentBlock :: "pystr \<Rightarrow> error + bytes" where
  "WriteCommentBlock comment =
     pack_seq [pack_H 0xC355, Inr pack_xx, Inr (pack_s (length comment + 1) comment)]"

definition WriteModelBlock :: "error + bytes" where
  "WriteModelBlock = pack_seq [pack_H 0x46C8, Inr pack_xx]"

definition WriteVersionBlock :: "int \<Rightarrow> error + bytes" where
  "WriteVersionBlock version = pack_seq [pack_H 0x24D1, pack_h version]"

definition WriteOffsetBlock :: "vec option \<Rightarrow> error + bytes" where
  "WriteOffsetBlock offset = ebind (iterable offset) (\<lambda>xs.
     pack_seq [pack_H 0x9383, Inr pack_xx, pack_n 3 pack_f xs])"

text \<open>\<^verbatim>\<open>[__clamp_float_to_short__(v) for v in row]\<close>.\<close>

fun clamp_all :: "vec \<Rightarrow> error + int list" where
  "clamp_all [] = Inr []"
| "clamp_all (v # vs) =
     ebind (clamp_float_to_short v) (\<lambda>i. ebind (clamp_all vs) (\<lambda>is. Inr (i # is)))"

text \<open>
  \<^verbatim>\<open>WriteMatrixBlock\<close> clamps the three rows, then packs three blocks and writes them at
  once.
\<close>

definition WriteMatrixBlock :: "vec list option \<Rightarrow> error + bytes list" where
  "WriteMatrixBlock matrix = ebind (iterable matrix) (\<lambda>rows.
     ebind (py_getitem rows 0) (\<lambda>r0. ebind (clamp_all r0) (\<lambda>m0.
     ebind (py_getitem rows 1) (\<lambda>r1. ebind (clamp_all r1) (\<lambda>m1.
     ebind (py_getitem rows 2) (\<lambda>r2. ebind (clamp_all r2) (\<lambda>m2.
     ebind (pack_seq [pack_H 0xDCFD, pack_n 3 pack_h m0]) (\<lambda>b0.
     ebind (pack_seq [pack_H 0xCCDC, pack_n 3 pack_h m1]) (\<lambda>b1.
     ebind (pack_seq [pack_H 0xFCBF, pack_n 3 pack_h m2]) (\<lambda>b2.
     Inr [b0, b1, b2]))))))))))"

definition WriteBoneCountBlock :: "int \<Rightarrow> error + bytes" where
  "WriteBoneCountBlock bone_count = WriteMetaInt16Block 0x76BA bone_count"

definition WriteBoneInfoBlock :: "int \<Rightarrow> bone \<Rightarrow> error + bytes" where
  "WriteBoneInfoBlock bone_index bone =
     pack_seq [pack_H 0xF099, Inr pack_xx, pack_i bone_index, pack_i (bone_parent bone),
               Inr (pack_padded_string (bone_name bone))]"

definition WriteCosmeticInfoBlock :: "int \<Rightarrow> error + bytes" where
  "WriteCosmeticInfoBlock cosmetic_count = WriteMetaInt32Block 0x7836 cosmetic_count"

definition WriteBoneIndexBlock :: "int \<Rightarrow> error + bytes" where
  "WriteBoneIndexBlock index = WriteMetaInt16Block 0xDD9A index"

definition WriteVertex16Count :: "int \<Rightarrow> error + bytes" where
  "WriteVertex16Count vert_count = WriteMetaUInt16Block 0x950D vert_count"

definition WriteVertex32Count :: "int \<Rightarrow> error + bytes" where
  "WriteVertex32Count vert_count = WriteMetaInt32Block 0x2AEC vert_count"

definition WriteVertex16Index :: "int \<Rightarrow> error + bytes" where
  "WriteVertex16Index vert_index = WriteMetaUInt16Block 0x8F03 vert_index"

definition WriteVertex32Index :: "int \<Rightarrow> error + bytes" where
  "WriteVertex32Index vert_index = WriteMetaInt32Block 0xB097 vert_index"

definition WriteVertexWeightBlock :: "int \<times> pyfloat \<Rightarrow> error + bytes" where
  "WriteVertexWeightBlock weight = (case weight of (b, w) \<Rightarrow>
     pack_seq [pack_H 0xF1AB, pack_h b, pack_f w])"

definition WriteFaceInfoBlock :: "'a face \<Rightarrow> error + bytes" where
  "WriteFaceInfoBlock face =
     (if 255 < face_mesh_id face \<or> 255 < face_material_id face
      then pack_seq [pack_H 0x6711, pack_H 0x0, pack_H (face_mesh_id face),
                     pack_H (face_material_id face)]
      else pack_seq [pack_H 0x562F, pack_B (face_mesh_id face), pack_B (face_material_id face)])"

definition WriteFaceVertexNormalBlock :: "vec option \<Rightarrow> error + bytes" where
  "WriteFaceVertexNormalBlock normal = ebind (iterable normal) (\<lambda>xs.
     ebind (clamp_all xs) (\<lambda>packed.
     pack_seq [pack_H 0x89EC, pack_n 3 pack_h packed]))"

text \<open>\<^verbatim>\<open>[int(c * 255) for c in color]\<close>.\<close>

fun color_ints :: "vec \<Rightarrow> error + int list" where
  "color_ints [] = Inr []"
| "color_ints (c # cs) =
     ebind (py_int (fmul c 255)) (\<lambda>i. ebind (color_ints cs) (\<lambda>is. Inr (i # is)))"

definition WriteColorBlock :: "vec option \<Rightarrow> error + bytes" where
  "WriteColorBlock color = ebind (iterable color) (\<lambda>xs.
     ebind (color_ints xs) (\<lambda>rgb.
     pack_seq [pack_H 0x6DD8, Inr pack_xx, pack_n 4 pack_B rgb]))"

definition WriteFaceVertexUVBlock :: "int \<Rightarrow> vec option \<Rightarrow> error + bytes" where
  "WriteFaceVertexUVBlock layer uv = ebind (iterable uv) (\<lambda>xs.
     pack_seq [pack_H 0x1AD4, pack_h layer, pack_n 2 pack_f xs])"

text \<open>
  \<^verbatim>\<open>serialize_image_string\<close> belongs to the module \<^verbatim>\<open>xmodel\<close> and is a parameter; the
  writer calls it with \<^verbatim>\<open>extended_features=True\<close> whatever its own argument is.
\<close>

definition WriteMaterialInfoBlock ::
  "('i \<Rightarrow> bool \<Rightarrow> pystr) \<Rightarrow> int \<Rightarrow> 'i material \<Rightarrow> bool \<Rightarrow> error + bytes" where
  "WriteMaterialInfoBlock serialize_image_string material_index material extended_features =
     pack_seq [pack_H 0xA700, pack_h material_index,
               Inr (pack_padded_string (mat_name material)),
               Inr (pack_padded_string (mat_type material)),
               Inr (pack_padded_string (serialize_image_string (mat_images material) True))]"

section \<open>The model writer\<close>

record 'i model =
  model_bones :: "bone list"
  model_meshes :: "(vertex, face_vertex face) mesh list"
  model_materials :: "'i material list"

text \<open>
  The blocks are collected in the order of the calls; the first exception ends the
  run. \<open>blk\<close> makes a group of one block.
\<close>

fun collect :: "(error + 'a list) list \<Rightarrow> error + 'a list" where
  "collect [] = Inr []"
| "collect (x # xs) = ebind x (\<lambda>a. ebind (collect xs) (\<lambda>b. Inr (a @ b)))"

definition blk :: "error + bytes \<Rightarrow> error + bytes list" where
  "blk w = ebind w (\<lambda>b. Inr [b])"

text \<open>\<^verbatim>\<open>for index, x in enumerate(xs)\<close>.\<close>

definition for_enumerate :: "'a list \<Rightarrow> (int \<Rightarrow> 'a \<Rightarrow> error + 'b list) \<Rightarrow> error + 'b list" where
  "for_enumerate xs body = collect (map (\<lambda>(i, x). body (int i) x) (List.enumerate 0 xs))"

text \<open>The list \<^verbatim>\<open>vert_offsets\<close>: \<open>0\<close> and the running sums of the vertex counts.\<close>

definition append_offset :: "int list \<Rightarrow> ('v, 'f) mesh \<Rightarrow> int list" where
  "append_offset vert_offsets mesh =
     (let prev_index = length vert_offsets - 1
      in vert_offsets @ [vert_offsets ! prev_index + int (length (mesh_verts mesh))])"

definition vert_offsets :: "('v, 'f) mesh list \<Rightarrow> int list" where
  "vert_offsets ms = foldl append_offset [0] ms"

definition write_bone_info :: "bone list \<Rightarrow> error + bytes list" where
  "write_bone_info bs = for_enumerate bs (\<lambda>bone_index bone.
     blk (WriteBoneInfoBlock bone_index bone))"

definition write_bone_data :: "bone list \<Rightarrow> error + bytes list" where
  "write_bone_data bs = for_enumerate bs (\<lambda>bone_index bone. collect [
     blk (WriteBoneIndexBlock bone_index),
     blk (WriteOffsetBlock (bone_offset bone)),
     blk (WriteMetaVec3Block 0x1C56 (bone_scale bone)),
     WriteMatrixBlock (bone_matrix bone)])"

definition write_verts ::
  "(int \<Rightarrow> error + bytes) \<Rightarrow> int list \<Rightarrow> (vertex, 'f) mesh list \<Rightarrow> error + bytes list" where
  "write_verts WriteVertexIndexBlock offsets ms = for_enumerate ms (\<lambda>mesh_index mesh.
     let vert_offset = offsets ! nat mesh_index in
     for_enumerate (mesh_verts mesh) (\<lambda>vert_index vert. collect [
       blk (WriteVertexIndexBlock (vert_index + vert_offset)),
       blk (WriteOffsetBlock (vertex_offset vert)),
       ebind (iterable (vertex_weights vert)) (\<lambda>ws. collect [
         blk (WriteMetaInt16Block 0xEA46 (int (length ws))),
         collect (map (\<lambda>weight. blk (WriteVertexWeightBlock weight)) ws)])]))"

definition write_corner ::
  "(int \<Rightarrow> error + bytes) \<Rightarrow> int \<Rightarrow> face_vertex face \<Rightarrow> int \<Rightarrow> error + bytes list" where
  "write_corner WriteVertexIndexBlock vert_offset face i =
     ebind (py_getitem (face_indices face) i) (\<lambda>ind. collect [
       blk (WriteVertexIndexBlock (fv_vertex ind + vert_offset)),
       blk (WriteFaceVertexNormalBlock (fv_normal ind)),
       blk (WriteColorBlock (fv_color ind)),
       blk (WriteFaceVertexUVBlock 1 (fv_uv ind))])"

definition write_faces ::
  "(int \<Rightarrow> error + bytes) \<Rightarrow> int list \<Rightarrow> ('v, face_vertex face) mesh list \<Rightarrow> error + bytes list" where
  "write_faces WriteVertexIndexBlock offsets ms = for_enumerate ms (\<lambda>mesh_index mesh.
     let vert_offset = offsets ! nat mesh_index in
     collect (map (\<lambda>face. collect [
       blk (WriteFaceInfoBlock face),
       collect (map (write_corner WriteVertexIndexBlock vert_offset face) [0, 1, 2])])
       (mesh_faces mesh)))"

definition write_objects :: "('v, 'f) mesh list \<Rightarrow> error + bytes list" where
  "write_objects ms = for_enumerate ms (\<lambda>mesh_index mesh.
     blk (WriteMetaObjectInfo 0x87D4 mesh_index (mesh_name mesh)))"

definition write_materials ::
  "('i \<Rightarrow> bool \<Rightarrow> pystr) \<Rightarrow> bool \<Rightarrow> 'i material list \<Rightarrow> error + bytes list" where
  "write_materials serialize_image_string extended_features ms =
     for_enumerate ms (\<lambda>material_index material. collect [
       blk (WriteMaterialInfoBlock serialize_image_string material_index material
              extended_features),
       blk (WriteColorBlock (mat_color material)),
       blk (WriteMetaVec4Block 0x6DAB (mat_transparency material)),
       blk (WriteMetaVec4Block 0x37FF (mat_color_ambient material)),
       blk (WriteMetaVec4Block 0x4265 (mat_incandescence material)),
       blk (WriteMetaVec2Block 0xC835 (mat_coeffs material)),
       blk (WriteMetaVec2Block 0xFE0C (mat_glow material)),
       blk (WriteMetaVec2Block 0x7E24 (mat_refractive material)),
       blk (WriteMetaVec4Block 0x317C (mat_color_specular material)),
       blk (WriteMetaVec4Block 0xE593 (mat_color_reflective material)),
       blk (WriteMetaVec2Block 0x7D76 (mat_reflective material)),
       blk (WriteMetaVec2Block 0x83C7 (mat_blinn material)),
       blk (WriteMetaFloatBlock 0x5CD2 (mat_phong material))])"

text \<open>
  The blocks that \<^verbatim>\<open>__xbin_writefile_model_internal__\<close> writes to its buffer, in order.
  The parameter \<open>version0\<close> is overwritten by \<^verbatim>\<open>version = 7\<close> before any use.
\<close>

definition model_blocks ::
  "('i \<Rightarrow> bool \<Rightarrow> pystr) \<Rightarrow> 'i model \<Rightarrow> int \<Rightarrow> bool \<Rightarrow> pystr \<Rightarrow> error + bytes list" where
  "model_blocks serialize_image_string model version0 extended_features header_message =
     (let version = 7;
          cosmetic_count = int (length (filter bone_cosmetic (model_bones model)));
          offsets = vert_offsets (model_meshes model);
          vert_count = offsets ! (length offsets - 1);
          (WriteVertexCountBlock, WriteVertexIndexBlock) =
             (if version = (7 :: int) \<and> 0xFFFF < vert_count
              then (WriteVertex32Count, WriteVertex32Index)
              else (WriteVertex16Count, WriteVertex16Index));
          face_count = sum_list (map (\<lambda>mesh. int (length (mesh_faces mesh))) (model_meshes model))
      in collect [
        (if header_message \<noteq> [] then blk (WriteCommentBlock header_message) else Inr []),
        blk WriteModelBlock,
        blk (WriteVersionBlock version),
        blk (WriteBoneCountBlock (int (length (model_bones model)))),
        (if 0 < cosmetic_count then blk (WriteCosmeticInfoBlock cosmetic_count) else Inr []),
        write_bone_info (model_bones model),
        write_bone_data (model_bones model),
        blk (WriteVertexCountBlock vert_count),
        write_verts WriteVertexIndexBlock offsets (model_meshes model),
        blk (WriteMetaInt32Block 0xBE92 face_count),
        write_faces WriteVertexIndexBlock offsets (model_meshes model),
        blk (WriteMetaInt16Block 0x62AF (int (length (model_meshes model)))),
        write_objects (model_meshes model),
        blk (WriteMetaInt16Block 0xA1B2 (int (length (model_materials model)))),
        write_materials serialize_image_string extended_features (model_materials model)])"

text \<open>
  \<^verbatim>\<open>__xbin_writefile_model_internal__\<close>: the content of the file written, the container
  around the concatenated blocks.
\<close>

definition xbin_writefile_model_internal ::
  "(bytes \<Rightarrow> bytes) \<Rightarrow> ('i \<Rightarrow> bool \<Rightarrow> pystr) \<Rightarrow> 'i model \<Rightarrow> int \<Rightarrow> bool \<Rightarrow> pystr
     \<Rightarrow> error + bytes" where
  "xbin_writefile_model_internal compress serialize_image_string model version
       extended_features header_message =
     ebind (model_blocks serialize_image_string model version extended_features header_message)
       (\<lambda>blocks. compress_internal compress (concat blocks))"

section \<open>The block sequence of a model file\<close>

text \<open>
  The tag of a block is the unsigned 16-bit value of its first two bytes. \<open>tag_of\<close> and
  \<open>tags_of\<close> say which tags a writer produces when it succeeds.
\<close>

definition block_tag :: "bytes \<Rightarrow> int" where
  "block_tag b = le_uint (take 2 b)"

definition tag_of :: "error + bytes \<Rightarrow> int \<Rightarrow> bool" where
  "tag_of w t = (case w of Inl _ \<Rightarrow> True | Inr b \<Rightarrow> block_tag b = t)"

definition tags_of :: "error + bytes list \<Rightarrow> int list \<Rightarrow> bool" where
  "tags_of w ts = (case w of Inl _ \<Rightarrow> True | Inr bs \<Rightarrow> map block_tag bs = ts)"

text \<open>
  The order of the blocks of a model file after section 4.3 of the specification, with
  the color block that the code writes after each material-info block: the tags of the
  blocks of one material, of one vertex and of one face, and of the whole file.
\<close>

definition material_tags :: "int list" where
  "material_tags = [0xA700, 0x6DD8, 0x6DAB, 0x37FF, 0x4265, 0xC835, 0xFE0C, 0x7E24, 0x317C,
                    0xE593, 0x7D76, 0x83C7, 0x5CD2]"

definition total_verts :: "'i model \<Rightarrow> nat" where
  "total_verts m = sum_list (map (\<lambda>mesh. length (mesh_verts mesh)) (model_meshes m))"

definition total_faces :: "'i model \<Rightarrow> nat" where
  "total_faces m = sum_list (map (\<lambda>mesh. length (mesh_faces mesh)) (model_meshes m))"

definition vertex_tags :: "int \<Rightarrow> vertex \<Rightarrow> int list" where
  "vertex_tags index_tag v = [index_tag, 0x9383, 0xEA46] @
     replicate (case vertex_weights v of None \<Rightarrow> 0 | Some ws \<Rightarrow> length ws) 0xF1AB"

definition face_tags :: "int \<Rightarrow> 'a face \<Rightarrow> int list" where
  "face_tags index_tag f =
     (if 255 < face_mesh_id f \<or> 255 < face_material_id f then 0x6711 else 0x562F) #
     concat (replicate 3 [index_tag, 0x89EC, 0x6DD8, 0x1AD4])"

definition model_tags :: "'i model \<Rightarrow> pystr \<Rightarrow> int list" where
  "model_tags m header_message =
     (let wide = (0xFFFF < int (total_verts m));
          count_tag = (if wide then 0x2AEC else 0x950D);
          index_tag = (if wide then 0xB097 else 0x8F03)
      in (if header_message \<noteq> [] then [0xC355] else [])
       @ [0x46C8, 0x24D1, 0x76BA]
       @ (if filter bone_cosmetic (model_bones m) \<noteq> [] then [0x7836] else [])
       @ replicate (length (model_bones m)) 0xF099
       @ concat (replicate (length (model_bones m)) [0xDD9A, 0x9383, 0x1C56, 0xDCFD, 0xCCDC, 0xFCBF])
       @ [count_tag]
       @ concat (map (\<lambda>mesh. concat (map (vertex_tags index_tag) (mesh_verts mesh))) (model_meshes m))
       @ [0xBE92]
       @ concat (map (\<lambda>mesh. concat (map (face_tags index_tag) (mesh_faces mesh))) (model_meshes m))
       @ [0x62AF]
       @ replicate (length (model_meshes m)) 0x87D4
       @ [0xA1B2]
       @ concat (replicate (length (model_materials m)) material_tags))"

text \<open>The four tags of the vertex count and vertex index blocks.\<close>

definition vertex_family_tag :: "int \<Rightarrow> bool" where
  "vertex_family_tag t = (t = 0x950D \<or> t = 0x2AEC \<or> t = 0x8F03 \<or> t = 0xB097)"

text \<open>
  A state for examples: \<^verbatim>\<open>self\<close> without attributes, no objects, an empty file.
\<close>

definition blank_ctx :: "'i ctx" where
  "blank_ctx = \<lparr>fh = \<lparr>data = [], pos = 0\<rparr>, heap = [], self_bones = None,
     self_cosmetics = None, self_meshes = None, self_materials = None, self_parts = None,
     self_framerate = None, self_frames = None, self_notes = None, dummy_mesh = Mesh [],
     active_thing = None, active_tri = None, active_frame = None, asset_type = None\<rparr>"

section \<open>Basic facts\<close>

lemma ebind_Inr [simp]: "ebind (Inr x) k = k x"
  by (simp add: ebind_def)

lemma ebind_Inl [simp]: "ebind (Inl e) k = Inl e"
  by (simp add: ebind_def)

lemma ebind_eq_Inr: "ebind m k = Inr y \<longleftrightarrow> (\<exists>x. m = Inr x \<and> k x = Inr y)"
  by (cases m) simp_all

lemma rbind_simps [simp]:
  "rbind None k = None"
  "rbind (Some (Inl e)) k = Some (Inl e)"
  "rbind (Some (Inr x)) k = k x"
  by (simp_all add: rbind_def)

lemma and_not_3: "x AND NOT (3::int) = 4 * (x div 4)"
proof -
  have "bit (x AND NOT (mask 2)) n = bit (push_bit 2 (drop_bit 2 x)) n" for n
  proof (cases "2 \<le> n")
    case True
    then have "Suc (Suc (n - 2)) = n" by simp
    with True show ?thesis by (simp add: bit_simps)
  next
    case False
    then show ?thesis by (simp add: bit_simps)
  qed
  then have "x AND NOT (mask 2) = push_bit 2 (drop_bit 2 x)"
    by (auto intro: bit_eqI)
  then show ?thesis
    by (simp add: mask_eq_exp_minus_1 push_bit_eq_mult drop_bit_eq_div)
qed

lemma and_mask_56: "0 \<le> x \<Longrightarrow> x < 2 ^ 56 \<Longrightarrow> x AND 0xFFFFFFFFFFFFFC = x AND NOT (3::int)"
proof -
  assume a: "0 \<le> x" "x < 2 ^ 56"
  have m: "(0xFFFFFFFFFFFFFC :: int) = mask 56 AND NOT 3"
    by (simp add: mask_eq_exp_minus_1)
  have "x AND mask 56 = x"
    using a by (simp add: take_bit_int_eq_self flip: take_bit_eq_mask)
  then show ?thesis
    unfolding m by (metis and.assoc)
qed

lemma padded_eq: "0 \<le> n \<Longrightarrow> n < 2 ^ 56 - 3 \<Longrightarrow> padded n = 4 * ((n + 3) div 4)"
  using and_mask_56 [of "n + 3"] and_not_3 [of "n + 3"] by (simp add: padded_def)

section \<open>The alignment function\<close>

text \<open>
  C7, as stated: \<open>padded n = (n + 3) AND NOT 3\<close> for every non-negative \<open>n\<close>. The mask of
  the code has 56 bits, so the first \<open>n\<close> whose \<open>n + 3\<close> needs bit 56 is sent to \<open>0\<close>.
\<close>

theorem padded_mask_counterexample:
  "0 \<le> (2 ^ 56 - 3 :: int) \<and> padded (2 ^ 56 - 3) = 0 \<and> spec_padded (2 ^ 56 - 3) = 2 ^ 56"
proof -
  have "spec_padded (2 ^ 56 - 3) = 4 * ((2 ^ 56 - 3 + 3) div 4)"
    unfolding spec_padded_def by (rule and_not_3)
  then show ?thesis
    by (simp add: padded_def)
qed

text \<open>
  C7, amended: for every \<open>n\<close> with \<open>0 \<le> n < 2 ^ 56 - 3\<close>, \<open>padded n\<close> is \<open>(n + 3) AND NOT 3\<close>,
  the least multiple of 4 that is not below \<open>n\<close>; and \<open>padded 0 = 0\<close>, \<open>padded 1 = 4\<close>,
  \<open>padded 4 = 4\<close>, \<open>padded 5 = 8\<close>.
\<close>

theorem padded_rounds_up:
  "(0 \<le> n \<and> n < 2 ^ 56 - 3 \<longrightarrow>
      padded n = spec_padded n \<and> padded n mod 4 = 0 \<and> n \<le> padded n \<and> padded n < n + 4)
   \<and> padded 0 = 0 \<and> padded 1 = 4 \<and> padded 4 = 4 \<and> padded 5 = 8"
proof -
  have "padded n = spec_padded n \<and> padded n mod 4 = 0 \<and> n \<le> padded n \<and> padded n < n + 4"
    if "0 \<le> n" "n < 2 ^ 56 - 3"
  proof -
    have p: "padded n = 4 * ((n + 3) div 4)"
      using that by (rule padded_eq)
    have s: "spec_padded n = 4 * ((n + 3) div 4)"
      unfolding spec_padded_def by (rule and_not_3)
    show ?thesis
      unfolding p s by (simp, presburger)
  qed
  moreover have "padded 0 = 0 \<and> padded 1 = 4 \<and> padded 4 = 4 \<and> padded 5 = 8"
    by (simp add: padded_def)
  ultimately show ?thesis by blast
qed

theorem padded_rounds_up_witness:
  "(0 :: int) \<le> 13 \<and> (13 :: int) < 2 ^ 56 - 3 \<and> padded 13 = spec_padded 13 \<and> padded 13 = 16"
  using padded_rounds_up [of 13] by (simp add: padded_def)

section \<open>The fixed-point encoding\<close>







lemma le_bytes_2: "le_bytes 2 v = [word_of_int v, word_of_int (v div 256)]"
  by (simp add: numeral_2_eq_2)

lemma le_bytes_4:
  "le_bytes 4 v = [word_of_int v, word_of_int (v div 256), word_of_int (v div 256 div 256),
     word_of_int (v div 256 div 256 div 256)]"
  by (simp add: numeral_eq_Suc)

lemma pack_H_tag: "0 \<le> t \<Longrightarrow> t \<le> 0xFFFF \<Longrightarrow> pack_H t = Inr (le_bytes 2 t)"
  by (simp add: pack_H_def pack_range_def)








section \<open>The container magic\<close>



section \<open>Unimplemented and unknown tags\<close>

lemma hashmap_unimplemented:
  "(t, name) \<in> set [(0xBCD4, ''FIRSTFRAME''), (0x1FC2, ''NUMSBONES''), (0xB35E, ''NUMSWEIGHTS''),
      (0xEF69, ''QUATERNION''), (0xA65B, ''NUMIKPITCHLAYERS''), (0x1D7D, ''IKPITCHLAYER''),
      (0xA58B, ''ROTATION''), (0x6EEE, ''EXTRA'')] \<Longrightarrow> hashmap t = Some (name, None)"
  by (auto simp add: hashmap_def hashmap_items_def)

lemma unpack_H_nonempty: "unpack_H d = Inr t \<Longrightarrow> d \<noteq> []"
  by (auto simp add: unpack_H_def unpack_sized_def split: if_splits)

text \<open>
  C9: when the two bytes the loop has read are one of the eight tags that the table
  lists without a handler, the loop ends with the unimplemented-block error carrying
  the display name of the tag and the position after the tag, whatever follows in the
  stream; it is not the unknown-tag error. When they are a tag that the table does not
  list (such as \<open>0xFFFF\<close>), the loop ends with the unknown-tag error carrying the tag and
  the position of the tag.
\<close>

theorem unimplemented_tag_is_fatal:
  "(unpack_H d = Inr t \<and>
    (t, name) \<in> set [(0xBCD4, ''FIRSTFRAME''), (0x1FC2, ''NUMSBONES''), (0xB35E, ''NUMSWEIGHTS''),
      (0xEF69, ''QUATERNION''), (0xA65B, ''NUMIKPITCHLAYERS''), (0x1D7D, ''IKPITCHLAYER''),
      (0xA58B, ''ROTATION''), (0x6EEE, ''EXTRA'')] \<longrightarrow>
     read_blocks ds e st d = Some (Inl (UnimplementedBlock name (ftell (fh st)))))
   \<and> (unpack_H d = Inr t \<and> t \<notin> fst ` set hashmap_items \<longrightarrow>
     read_blocks ds e st d = Some (Inl (UnknownBlockHash t (ftell (fh st) - 2))))
   \<and> 0xFFFF \<notin> fst ` set hashmap_items"
proof (intro conjI impI)
  assume a: "unpack_H d = Inr t \<and>
    (t, name) \<in> set [(0xBCD4, ''FIRSTFRAME''), (0x1FC2, ''NUMSBONES''), (0xB35E, ''NUMSWEIGHTS''),
      (0xEF69, ''QUATERNION''), (0xA65B, ''NUMIKPITCHLAYERS''), (0x1D7D, ''IKPITCHLAYER''),
      (0xA58B, ''ROTATION''), (0x6EEE, ''EXTRA'')]"
  then have h: "hashmap t = Some (name, None)"
    by (intro hashmap_unimplemented) simp
  from a have "d \<noteq> []"
    by (auto dest: unpack_H_nonempty)
  then show "read_blocks ds e st d = Some (Inl (UnimplementedBlock name (ftell (fh st))))"
    using a h by (subst read_blocks.simps) simp
next
  assume a: "unpack_H d = Inr t \<and> t \<notin> fst ` set hashmap_items"
  then have h: "hashmap t = None"
    by (simp add: hashmap_def map_of_eq_None_iff)
  from a have "d \<noteq> []"
    by (auto dest: unpack_H_nonempty)
  then show "read_blocks ds e st d = Some (Inl (UnknownBlockHash t (ftell (fh st) - 2)))"
    using a h by (subst read_blocks.simps) simp
next
  show "0xFFFF \<notin> fst ` set hashmap_items"
    by (simp add: hashmap_items_def)
qed

theorem unimplemented_tag_is_fatal_witness:
  "read_blocks (\<lambda>_. ()) MODEL
     (blank_ctx\<lparr>fh := \<lparr>data = [0xC8, 0x46, 0, 0, 0x69, 0xEF, 1, 2, 3, 4], pos = 6\<rparr>\<rparr>) [0x69, 0xEF] =
     Some (Inl (UnimplementedBlock ''QUATERNION'' 6))
   \<and> read_blocks (\<lambda>_. ()) MODEL
     (blank_ctx\<lparr>fh := \<lparr>data = [0xC8, 0x46, 0, 0, 0xFF, 0xFF, 1, 2, 3, 4], pos = 6\<rparr>\<rparr>) [0xFF, 0xFF] =
     Some (Inl (UnknownBlockHash 0xFFFF 4))"
proof -
  have u: "unpack_H [0x69, 0xEF] = Inr 0xEF69" "unpack_H [0xFF, 0xFF] = Inr 0xFFFF"
    by (simp_all add: unpack_H_def unpack_sized_def)
  have n: "(0xFFFF :: int) \<notin> fst ` set hashmap_items"
    by (simp add: hashmap_items_def)
  show ?thesis
    using u n
      unimplemented_tag_is_fatal [of "[0x69, 0xEF]" "0xEF69" "''QUATERNION''" "\<lambda>_. ()" MODEL
        "blank_ctx\<lparr>fh := \<lparr>data = [0xC8, 0x46, 0, 0, 0x69, 0xEF, 1, 2, 3, 4], pos = 6\<rparr>\<rparr>"]
      unimplemented_tag_is_fatal [of "[0xFF, 0xFF]" "0xFFFF" "[]" "\<lambda>_. ()" MODEL
        "blank_ctx\<lparr>fh := \<lparr>data = [0xC8, 0x46, 0, 0, 0xFF, 0xFF, 1, 2, 3, 4], pos = 6\<rparr>\<rparr>"]
    by (simp add: ftell_def)
qed

section \<open>Cosmetic bones\<close>

lemma lift_Some [simp]: "lift m = Some m"
  by (simp add: lift_def)

text \<open>
  C6: the bone count block sizes the bone array, the cosmetic count block stores the
  decoded count, and a bone-info block carrying \<open>index\<close> (within the array) makes a bone
  that is cosmetic exactly when \<open>index \<ge> bone_count - cosmetic_count\<close>, where
  \<open>bone_count\<close> is the length of the bone array; the bone is stored at \<open>index\<close>. With ten
  slots and three cosmetic bones, the indices 7, 8 and 9 are cosmetic and 0 to 6 are
  not.
\<close>

theorem bone_cosmetic_by_index:
  "(LoadInt16Block (fh st) = Inr (n, f) \<longrightarrow>
      LoadBoneCount st = Some (Inr (st\<lparr>fh := f, self_bones := Some (replicate (nat n) None)\<rparr>)))
   \<and> (LoadInt32Block (fh st) = Inr (c, f) \<longrightarrow>
      LoadCosmeticCount st = Some (Inr (st\<lparr>fh := f, self_cosmetics := Some c\<rparr>)))
   \<and> (LoadBoneBlock (fh st) = Some (Inr ((index, parent, name), f)) \<and> self_bones st = Some bs
       \<and> self_cosmetics st = Some cosmetic_count \<and> py_index bs index = Inr j \<longrightarrow>
      LoadBoneInfo st = Some (Inr (st\<lparr>fh := f,
        heap := heap st @ [OBone ((Bone name parent)\<lparr>bone_cosmetic :=
                  (int (length bs) - cosmetic_count \<le> index)\<rparr>)],
        self_bones := Some (bs[j := Some (length (heap st))])\<rparr>)))
   \<and> (\<forall>i \<in> {0 ..< 10 :: int}. (10 - 3 \<le> i) = (i \<in> {7, 8, 9}))"
proof -
  have "\<forall>i \<in> {0 ..< 10 :: int}. (10 - 3 \<le> i) = (i \<in> {7, 8, 9})"
    by auto
  then show ?thesis
    by (auto simp add: LoadBoneCount_def LoadCosmeticCount_def LoadBoneInfo_def read_value_def
        read_string_value_def none_list_def attr_def alloc_def py_setitem_def Bone_def Let_def)
qed

theorem bone_cosmetic_by_index_witness:
  "LoadBoneInfo (blank_ctx\<lparr>fh := \<lparr>data = [0x99, 0xF0, 0, 0, 7, 0, 0, 0, 0xFF, 0xFF, 0xFF, 0xFF,
                                            0x41, 0, 0, 0], pos = 2\<rparr>,
                           self_bones := Some (replicate 10 None),
                           self_cosmetics := Some 3\<rparr> :: unit ctx) =
     Some (Inr (blank_ctx\<lparr>fh := \<lparr>data = [0x99, 0xF0, 0, 0, 7, 0, 0, 0, 0xFF, 0xFF, 0xFF, 0xFF,
                                            0x41, 0, 0, 0], pos = 16\<rparr>,
        heap := [OBone \<lparr>bone_name = [0x41], bone_parent = - 1, bone_cosmetic = True,
                        bone_offset = None, bone_scale = None, bone_matrix = None\<rparr>],
        self_bones := Some ((replicate 10 None)[7 := Some 0]),
        self_cosmetics := Some 3\<rparr>))
   \<and> LoadBoneInfo (blank_ctx\<lparr>fh := \<lparr>data = [0x99, 0xF0, 0, 0, 6, 0, 0, 0, 0xFF, 0xFF, 0xFF, 0xFF,
                                            0x41, 0, 0, 0], pos = 2\<rparr>,
                           self_bones := Some (replicate 10 None),
                           self_cosmetics := Some 3\<rparr> :: unit ctx) =
     Some (Inr (blank_ctx\<lparr>fh := \<lparr>data = [0x99, 0xF0, 0, 0, 6, 0, 0, 0, 0xFF, 0xFF, 0xFF, 0xFF,
                                            0x41, 0, 0, 0], pos = 16\<rparr>,
        heap := [OBone \<lparr>bone_name = [0x41], bone_parent = - 1, bone_cosmetic = False,
                        bone_offset = None, bone_scale = None, bone_matrix = None\<rparr>],
        self_bones := Some ((replicate 10 None)[6 := Some 0]),
        self_cosmetics := Some 3\<rparr>))"
proof -
  have b7: "LoadBoneBlock \<lparr>data = [0x99, 0xF0, 0, 0, 7, 0, 0, 0, 0xFF, 0xFF, 0xFF, 0xFF,
                                  0x41, 0, 0, 0], pos = 2\<rparr> =
      Some (Inr ((7, - 1, [0x41]), \<lparr>data = [0x99, 0xF0, 0, 0, 7, 0, 0, 0, 0xFF, 0xFF, 0xFF, 0xFF,
                                             0x41, 0, 0, 0], pos = 16\<rparr>))"
    by code_simp
  have b6: "LoadBoneBlock \<lparr>data = [0x99, 0xF0, 0, 0, 6, 0, 0, 0, 0xFF, 0xFF, 0xFF, 0xFF,
                                  0x41, 0, 0, 0], pos = 2\<rparr> =
      Some (Inr ((6, - 1, [0x41]), \<lparr>data = [0x99, 0xF0, 0, 0, 6, 0, 0, 0, 0xFF, 0xFF, 0xFF, 0xFF,
                                             0x41, 0, 0, 0], pos = 16\<rparr>))"
    by code_simp
  have i: "py_index (replicate 10 (None :: nat option)) 7 = Inr 7"
    "py_index (replicate 10 (None :: nat option)) 6 = Inr 6"
    by (simp_all add: py_index_def)
  show ?thesis
    using b7 b6 i
      bone_cosmetic_by_index [of "blank_ctx\<lparr>fh := \<lparr>data = [0x99, 0xF0, 0, 0, 7, 0, 0, 0, 0xFF,
            0xFF, 0xFF, 0xFF, 0x41, 0, 0, 0], pos = 2\<rparr>, self_bones := Some (replicate 10 None),
            self_cosmetics := Some 3\<rparr> :: unit ctx" 0 "\<lparr>data = [0x99, 0xF0, 0, 0, 7, 0, 0, 0, 0xFF,
            0xFF, 0xFF, 0xFF, 0x41, 0, 0, 0], pos = 16\<rparr>" 0 7 "- 1" "[0x41]" "replicate 10 None" 3 7]
      bone_cosmetic_by_index [of "blank_ctx\<lparr>fh := \<lparr>data = [0x99, 0xF0, 0, 0, 6, 0, 0, 0, 0xFF,
            0xFF, 0xFF, 0xFF, 0x41, 0, 0, 0], pos = 2\<rparr>, self_bones := Some (replicate 10 None),
            self_cosmetics := Some 3\<rparr> :: unit ctx" 0 "\<lparr>data = [0x99, 0xF0, 0, 0, 6, 0, 0, 0, 0xFF,
            0xFF, 0xFF, 0xFF, 0x41, 0, 0, 0], pos = 16\<rparr>" 0 6 "- 1" "[0x41]" "replicate 10 None" 3 6]
    by (simp add: blank_ctx_def Bone_def)
qed

section \<open>Routing of the vertex-index tags\<close>

text \<open>
  C1: the tags \<open>0x8F03\<close> and \<open>0xB097\<close> are handled by \<^verbatim>\<open>LoadVertexIndex\<close> and
  \<^verbatim>\<open>LoadVertex32Index\<close>, which read the index as an unsigned 16-bit and as a signed
  32-bit value. When no face is active and the index lies in the vertex slot array,
  the handler creates a new vertex, stores it in the slot of the index and makes it
  the active entity. When a face is active, the handler creates a new face-vertex
  carrying the index, appends it to the corner list of the active face and makes it the
  active entity; the vertex slots are not touched.
\<close>

theorem vertex_index_routing:
  assumes "(tag, h, rd) \<in> {(0x8F03, H_LoadVertexIndex, LoadUInt16Block),
                            (0xB097, H_LoadVertex32Index, LoadInt32Block)}"
    and "rd (fh st) = Inr (index, f)"
  shows "(\<exists>name. hashmap tag = Some (name, Some h))
    \<and> (active_tri st = None \<and> py_index (mesh_verts (dummy_mesh st)) index = Inr j \<longrightarrow>
         run_handler ds e h st = Some (Inr (st\<lparr>fh := f,
           heap := heap st @ [OVertex Vertex],
           dummy_mesh := (dummy_mesh st)\<lparr>mesh_verts :=
              (mesh_verts (dummy_mesh st))[j := Some (length (heap st))]\<rparr>,
           active_thing := Some (length (heap st))\<rparr>)))
    \<and> (active_tri st = Some tri \<and> tri < length (heap st) \<and> heap st ! tri = OFace t \<longrightarrow>
         run_handler ds e h st = Some (Inr (st\<lparr>fh := f,
           heap := (heap st @ [OFaceVertex (FaceVertex index)])
                     [tri := OFace (t\<lparr>face_indices := face_indices t @ [length (heap st)]\<rparr>)],
           active_thing := Some (length (heap st))\<rparr>)))"
  using assms
  by (auto simp add: hashmap_def hashmap_items_def run_handler_def LoadVertexIndex_def
      LoadVertex32Index_def read_value_def vertex_index_body_def alloc_def py_setitem_def
      deref_def nth_append)

theorem vertex_index_routing_witness:
  "run_handler (\<lambda>_. ()) MODEL H_LoadVertexIndex
     (blank_ctx\<lparr>fh := \<lparr>data = [0x03, 0x8F, 1, 0], pos = 2\<rparr>,
                dummy_mesh := \<lparr>mesh_name = [], mesh_verts = [None, None], mesh_faces = []\<rparr>\<rparr>) =
     Some (Inr (blank_ctx\<lparr>fh := \<lparr>data = [0x03, 0x8F, 1, 0], pos = 4\<rparr>,
        heap := [OVertex Vertex],
        dummy_mesh := \<lparr>mesh_name = [], mesh_verts = [None, Some 0], mesh_faces = []\<rparr>,
        active_thing := Some 0\<rparr>))
   \<and> run_handler (\<lambda>_. ()) MODEL H_LoadVertex32Index
     (blank_ctx\<lparr>fh := \<lparr>data = [0x97, 0xB0, 0, 0, 1, 0, 0, 0], pos = 2\<rparr>,
                heap := [OFace (Face 0 0)],
                dummy_mesh := \<lparr>mesh_name = [], mesh_verts = [None, None], mesh_faces = [0]\<rparr>,
                active_tri := Some 0\<rparr>) =
     Some (Inr (blank_ctx\<lparr>fh := \<lparr>data = [0x97, 0xB0, 0, 0, 1, 0, 0, 0], pos = 8\<rparr>,
        heap := [OFace \<lparr>face_mesh_id = 0, face_material_id = 0, face_indices = [1]\<rparr>,
                 OFaceVertex (FaceVertex 1)],
        dummy_mesh := \<lparr>mesh_name = [], mesh_verts = [None, None], mesh_faces = [0]\<rparr>,
        active_thing := Some 1, active_tri := Some 0\<rparr>))"
proof -
  have r: "LoadUInt16Block \<lparr>data = [0x03, 0x8F, 1, 0], pos = 2\<rparr> =
             Inr (1, \<lparr>data = [0x03, 0x8F, 1, 0], pos = 4\<rparr>)"
    "LoadInt32Block \<lparr>data = [0x97, 0xB0, 0, 0, 1, 0, 0, 0], pos = 2\<rparr> =
             Inr (1, \<lparr>data = [0x97, 0xB0, 0, 0, 1, 0, 0, 0], pos = 8\<rparr>)"
    by code_simp+
  have i: "py_index [None, None :: nat option] 1 = Inr 1"
    by (simp add: py_index_def)
  show ?thesis
    using r i
      vertex_index_routing [of "0x8F03" H_LoadVertexIndex LoadUInt16Block
        "blank_ctx\<lparr>fh := \<lparr>data = [0x03, 0x8F, 1, 0], pos = 2\<rparr>,
             dummy_mesh := \<lparr>mesh_name = [], mesh_verts = [None, None], mesh_faces = []\<rparr>\<rparr>"
        1 "\<lparr>data = [0x03, 0x8F, 1, 0], pos = 4\<rparr>" 1 "\<lambda>_. ()" MODEL 0 "Face 0 0"]
      vertex_index_routing [of "0xB097" H_LoadVertex32Index LoadInt32Block
        "blank_ctx\<lparr>fh := \<lparr>data = [0x97, 0xB0, 0, 0, 1, 0, 0, 0], pos = 2\<rparr>,
             heap := [OFace (Face 0 0)],
             dummy_mesh := \<lparr>mesh_name = [], mesh_verts = [None, None], mesh_faces = [0]\<rparr>,
             active_tri := Some 0\<rparr>"
        1 "\<lparr>data = [0x97, 0xB0, 0, 0, 1, 0, 0, 0], pos = 8\<rparr>" 0 "\<lambda>_. ()" MODEL 0 "Face 0 0"]
    by (simp add: blank_ctx_def Face_def)
qed

section \<open>Tags of the written blocks\<close>

lemma length_le_bytes [simp]: "length (le_bytes k v) = k"
  by (induction k arbitrary: v) simp_all

lemma le_uint_le_bytes_2: "0 \<le> t \<Longrightarrow> t \<le> 0xFFFF \<Longrightarrow> le_uint (le_bytes 2 t) = t"
  by (simp add: le_bytes_2 uint_word_of_int take_bit_eq_mod)

lemma pack_seq_tag:
  "0 \<le> t \<Longrightarrow> t \<le> 0xFFFF \<Longrightarrow> pack_seq (pack_H t # ps) = Inr b \<Longrightarrow> block_tag b = t"
  by (cases "pack_seq ps") (auto simp add: pack_H_tag block_tag_def le_uint_le_bytes_2)

lemma tag_of_pack_seq:
  "0 \<le> t \<Longrightarrow> t \<le> 0xFFFF \<Longrightarrow> tag_of (pack_seq (pack_H t # ps)) t"
  unfolding tag_of_def by (auto split: sum.splits dest: pack_seq_tag simp del: pack_seq.simps)

lemma tag_of_Inl: "tag_of (Inl e) t"
  by (simp add: tag_of_def)

lemma tag_of_ebind: "(\<And>x. tag_of (k x) t) \<Longrightarrow> tag_of (ebind m k) t"
  by (cases m) (simp_all add: tag_of_def)

lemma tags_of_blk: "tag_of w t \<Longrightarrow> tags_of (blk w) [t]"
  by (cases w) (simp_all add: tag_of_def tags_of_def blk_def)

lemma tags_of_ebind: "(\<And>x. m = Inr x \<Longrightarrow> tags_of (k x) ts) \<Longrightarrow> tags_of (ebind m k) ts"
  by (cases m) (simp_all add: tags_of_def)

lemma tags_of_Nil: "tags_of (collect []) []"
  by (simp add: tags_of_def)

lemma tags_of_Inr_Nil: "tags_of (Inr []) []"
  by (simp add: tags_of_def)

lemma tags_of_Cons:
  "tags_of x a \<Longrightarrow> tags_of (collect xs) b \<Longrightarrow> tags_of (collect (x # xs)) (a @ b)"
  by (cases x; cases "collect xs") (simp_all add: tags_of_def)

lemma tags_of_collect_map:
  "(\<And>x. x \<in> set xs \<Longrightarrow> tags_of (f x) (g x)) \<Longrightarrow>
     tags_of (collect (map f xs)) (concat (map g xs))"
proof (induction xs)
  case Nil
  then show ?case by (simp add: tags_of_def)
next
  case (Cons x xs)
  have "tags_of (collect (f x # map f xs)) (g x @ concat (map g xs))"
    by (rule tags_of_Cons) (simp_all add: Cons)
  then show ?case by simp
qed

lemma tags_of_for_enumerate:
  assumes "\<And>i x. x \<in> set xs \<Longrightarrow> tags_of (body i x) (g x)"
  shows "tags_of (for_enumerate xs body) (concat (map g xs))"
proof -
  have "tags_of (collect (map (\<lambda>(i, x). body (int i) x) (List.enumerate 0 xs)))
          (concat (map (\<lambda>(i, x). g x) (List.enumerate 0 xs)))"
    by (rule tags_of_collect_map) (auto simp add: assms in_set_enumerate_eq)
  moreover have "map snd (List.enumerate 0 xs) = xs"
    by (simp add: enumerate_eq_zip)
  then have "map (\<lambda>(i, x). g x) (List.enumerate 0 xs) = map g xs"
    by (metis (no_types, lifting) case_prod_unfold map_eq_conv map_map o_apply)
  ultimately show ?thesis by (simp add: for_enumerate_def)
qed

lemmas writer_defs = WriteMetaObjectInfo_def WriteMetaInt16Block_def WriteMetaUInt16Block_def
  WriteMetaInt32Block_def WriteMetaFloatBlock_def WriteMetaVecBlock_def WriteMetaVec2Block_def
  WriteMetaVec3Block_def WriteMetaVec4Block_def WriteCommentBlock_def WriteModelBlock_def
  WriteVersionBlock_def WriteOffsetBlock_def WriteBoneCountBlock_def WriteBoneInfoBlock_def
  WriteCosmeticInfoBlock_def WriteBoneIndexBlock_def WriteVertex16Count_def WriteVertex32Count_def
  WriteVertex16Index_def WriteVertex32Index_def WriteVertexWeightBlock_def
  WriteFaceVertexNormalBlock_def WriteColorBlock_def WriteFaceVertexUVBlock_def
  WriteMaterialInfoBlock_def

lemma tag_of_writers:
  "tag_of (WriteMetaObjectInfo 0x87D4 i name) 0x87D4"
  "tag_of (WriteMetaInt16Block 0xEA46 v) 0xEA46"
  "tag_of (WriteMetaInt16Block 0x62AF v) 0x62AF"
  "tag_of (WriteMetaInt16Block 0xA1B2 v) 0xA1B2"
  "tag_of (WriteMetaInt32Block 0xBE92 v) 0xBE92"
  "tag_of (WriteMetaFloatBlock 0x5CD2 ph) 0x5CD2"
  "tag_of (WriteMetaVec2Block 0xC835 x) 0xC835"
  "tag_of (WriteMetaVec2Block 0xFE0C x) 0xFE0C"
  "tag_of (WriteMetaVec2Block 0x7E24 x) 0x7E24"
  "tag_of (WriteMetaVec2Block 0x7D76 x) 0x7D76"
  "tag_of (WriteMetaVec2Block 0x83C7 x) 0x83C7"
  "tag_of (WriteMetaVec3Block 0x1C56 x) 0x1C56"
  "tag_of (WriteMetaVec4Block 0x6DAB x) 0x6DAB"
  "tag_of (WriteMetaVec4Block 0x37FF x) 0x37FF"
  "tag_of (WriteMetaVec4Block 0x4265 x) 0x4265"
  "tag_of (WriteMetaVec4Block 0x317C x) 0x317C"
  "tag_of (WriteMetaVec4Block 0xE593 x) 0xE593"
  "tag_of (WriteCommentBlock c) 0xC355"
  "tag_of WriteModelBlock 0x46C8"
  "tag_of (WriteVersionBlock v) 0x24D1"
  "tag_of (WriteOffsetBlock x) 0x9383"
  "tag_of (WriteBoneCountBlock v) 0x76BA"
  "tag_of (WriteBoneInfoBlock i b) 0xF099"
  "tag_of (WriteCosmeticInfoBlock v) 0x7836"
  "tag_of (WriteBoneIndexBlock v) 0xDD9A"
  "tag_of (WriteVertex16Count v) 0x950D"
  "tag_of (WriteVertex32Count v) 0x2AEC"
  "tag_of (WriteVertex16Index v) 0x8F03"
  "tag_of (WriteVertex32Index v) 0xB097"
  "tag_of (WriteVertexWeightBlock w) 0xF1AB"
  "tag_of (WriteFaceVertexNormalBlock x) 0x89EC"
  "tag_of (WriteColorBlock x) 0x6DD8"
  "tag_of (WriteFaceVertexUVBlock l x) 0x1AD4"
  "tag_of (WriteMaterialInfoBlock ser i mat ext) 0xA700"
  unfolding writer_defs
  by (auto intro!: tag_of_ebind tag_of_pack_seq tag_of_Inl simp del: pack_seq.simps
      split: option.splits phong_value.splits prod.splits)

lemma tag_of_WriteFaceInfoBlock:
  "tag_of (WriteFaceInfoBlock f)
     (if 255 < face_mesh_id f \<or> 255 < face_material_id f then 0x6711 else 0x562F)"
  unfolding WriteFaceInfoBlock_def
  by (auto intro!: tag_of_pack_seq simp del: pack_seq.simps)

lemma tags_of_WriteMatrixBlock: "tags_of (WriteMatrixBlock m) [0xDCFD, 0xCCDC, 0xFCBF]"
  unfolding WriteMatrixBlock_def tags_of_def
  by (auto split: sum.splits simp add: ebind_eq_Inr simp del: pack_seq.simps
      dest!: pack_seq_tag [rotated 2])

lemma tags_of_write_bone_info: "tags_of (write_bone_info bs) (replicate (length bs) 0xF099)"
proof -
  have "tags_of (write_bone_info bs) (concat (map (\<lambda>_. [0xF099]) bs))"
    unfolding write_bone_info_def
    by (intro tags_of_for_enumerate tags_of_blk tag_of_writers)
  then show ?thesis by (simp add: map_replicate_const)
qed

lemma concat_map_const: "concat (map (\<lambda>_. ys) xs) = concat (replicate (length xs) ys)"
  by (simp add: map_replicate_const)

lemma tags_of_write_bone_data:
  "tags_of (write_bone_data bs)
     (concat (replicate (length bs) [0xDD9A, 0x9383, 0x1C56, 0xDCFD, 0xCCDC, 0xFCBF]))"
proof -
  have "tags_of (collect [blk (WriteBoneIndexBlock i), blk (WriteOffsetBlock (bone_offset b)),
     blk (WriteMetaVec3Block 0x1C56 (bone_scale b)), WriteMatrixBlock (bone_matrix b)])
     ([0xDD9A] @ [0x9383] @ [0x1C56] @ [0xDCFD, 0xCCDC, 0xFCBF] @ [])" for i b
    by (intro tags_of_Cons tags_of_Nil tags_of_blk tag_of_writers tags_of_WriteMatrixBlock)
  then have "tags_of (write_bone_data bs)
     (concat (map (\<lambda>_. [0xDD9A, 0x9383, 0x1C56, 0xDCFD, 0xCCDC, 0xFCBF]) bs))"
    unfolding write_bone_data_def
    by (intro tags_of_for_enumerate) simp
  then show ?thesis by (simp only: concat_map_const)
qed

lemma tags_of_write_verts:
  assumes "\<And>i. tag_of (w i) index_tag"
  shows "tags_of (write_verts w offsets ms)
     (concat (map (\<lambda>mesh. concat (map (vertex_tags index_tag) (mesh_verts mesh))) ms))"
proof -
  have v: "tags_of (collect [blk (w i), blk (WriteOffsetBlock (vertex_offset vert)),
       ebind (iterable (vertex_weights vert)) (\<lambda>ws. collect [
         blk (WriteMetaInt16Block 0xEA46 (int (length ws))),
         collect (map (\<lambda>weight. blk (WriteVertexWeightBlock weight)) ws)])])
     (vertex_tags index_tag vert)" for i vert
  proof -
    have "tags_of (collect [blk (WriteMetaInt16Block 0xEA46 (int (length ws))),
         collect (map (\<lambda>weight. blk (WriteVertexWeightBlock weight)) ws)])
         ([0xEA46] @ concat (map (\<lambda>_. [0xF1AB]) ws) @ [])" for ws
      by (intro tags_of_Cons tags_of_Nil tags_of_blk tag_of_writers tags_of_collect_map)
    then have "tags_of (ebind (iterable (vertex_weights vert)) (\<lambda>ws. collect [
         blk (WriteMetaInt16Block 0xEA46 (int (length ws))),
         collect (map (\<lambda>weight. blk (WriteVertexWeightBlock weight)) ws)]))
       (0xEA46 # replicate (case vertex_weights vert of None \<Rightarrow> 0 | Some ws \<Rightarrow> length ws) 0xF1AB)"
      by (intro tags_of_ebind) (auto simp add: iterable_def map_replicate_const split: option.splits)
    then have "tags_of (collect [blk (w i), blk (WriteOffsetBlock (vertex_offset vert)),
       ebind (iterable (vertex_weights vert)) (\<lambda>ws. collect [
         blk (WriteMetaInt16Block 0xEA46 (int (length ws))),
         collect (map (\<lambda>weight. blk (WriteVertexWeightBlock weight)) ws)])])
       ([index_tag] @ [0x9383] @ (0xEA46 # replicate (case vertex_weights vert of None \<Rightarrow> 0 | Some ws \<Rightarrow> length ws) 0xF1AB) @ [])"
      by (intro tags_of_Cons tags_of_Nil tags_of_blk tag_of_writers assms)
    then show ?thesis by (simp add: vertex_tags_def)
  qed
  show ?thesis
    unfolding write_verts_def Let_def
    by (intro tags_of_for_enumerate v)
qed

lemma tags_of_write_faces:
  assumes "\<And>i. tag_of (w i) index_tag"
  shows "tags_of (write_faces w offsets ms)
     (concat (map (\<lambda>mesh. concat (map (face_tags index_tag) (mesh_faces mesh))) ms))"
proof -
  have c: "tags_of (write_corner w vo face i) [index_tag, 0x89EC, 0x6DD8, 0x1AD4]" for vo face i
  proof -
    have "tags_of (collect [blk (w j), blk (WriteFaceVertexNormalBlock n), blk (WriteColorBlock c),
        blk (WriteFaceVertexUVBlock 1 uv)]) ([index_tag] @ [0x89EC] @ [0x6DD8] @ [0x1AD4] @ [])" for j n c uv
      by (intro tags_of_Cons tags_of_Nil tags_of_blk tag_of_writers assms)
    then show ?thesis
      unfolding write_corner_def by (intro tags_of_ebind) simp
  qed
  have f: "tags_of (collect [blk (WriteFaceInfoBlock face),
       collect (map (write_corner w vo face) [0, 1, 2])]) (face_tags index_tag face)" for vo face
  proof -
    have "tags_of (collect [blk (WriteFaceInfoBlock face),
       collect (map (write_corner w vo face) [0, 1, 2])])
       ([if 255 < face_mesh_id face \<or> 255 < face_material_id face then 0x6711 else 0x562F]
        @ concat (map (\<lambda>_. [index_tag, 0x89EC, 0x6DD8, 0x1AD4]) [0, 1, 2 :: int]) @ [])"
      by (intro tags_of_Cons tags_of_Nil tags_of_blk tag_of_WriteFaceInfoBlock tags_of_collect_map c)
    then show ?thesis
      by (simp add: face_tags_def numeral_3_eq_3)
  qed
  show ?thesis
    unfolding write_faces_def Let_def
    by (intro tags_of_for_enumerate tags_of_collect_map f)
qed

lemma tags_of_write_objects: "tags_of (write_objects ms) (replicate (length ms) 0x87D4)"
proof -
  have "tags_of (write_objects ms) (concat (map (\<lambda>_. [0x87D4]) ms))"
    unfolding write_objects_def
    by (intro tags_of_for_enumerate tags_of_blk tag_of_writers)
  then show ?thesis by (simp add: map_replicate_const)
qed

lemma tags_of_write_materials:
  "tags_of (write_materials ser ext ms) (concat (replicate (length ms) material_tags))"
proof -
  have "tags_of (collect [
       blk (WriteMaterialInfoBlock ser i material ext),
       blk (WriteColorBlock (mat_color material)),
       blk (WriteMetaVec4Block 0x6DAB (mat_transparency material)),
       blk (WriteMetaVec4Block 0x37FF (mat_color_ambient material)),
       blk (WriteMetaVec4Block 0x4265 (mat_incandescence material)),
       blk (WriteMetaVec2Block 0xC835 (mat_coeffs material)),
       blk (WriteMetaVec2Block 0xFE0C (mat_glow material)),
       blk (WriteMetaVec2Block 0x7E24 (mat_refractive material)),
       blk (WriteMetaVec4Block 0x317C (mat_color_specular material)),
       blk (WriteMetaVec4Block 0xE593 (mat_color_reflective material)),
       blk (WriteMetaVec2Block 0x7D76 (mat_reflective material)),
       blk (WriteMetaVec2Block 0x83C7 (mat_blinn material)),
       blk (WriteMetaFloatBlock 0x5CD2 (mat_phong material))])
     ([0xA700] @ [0x6DD8] @ [0x6DAB] @ [0x37FF] @ [0x4265] @ [0xC835] @ [0xFE0C] @ [0x7E24]
      @ [0x317C] @ [0xE593] @ [0x7D76] @ [0x83C7] @ [0x5CD2] @ [])" for i material
    by (intro tags_of_Cons tags_of_Nil tags_of_blk tag_of_writers)
  then have "tags_of (write_materials ser ext ms) (concat (map (\<lambda>_. material_tags) ms))"
    unfolding write_materials_def
    by (intro tags_of_for_enumerate) (simp add: material_tags_def)
  then show ?thesis by (simp only: concat_map_const)
qed


lemma length_append_offset [simp]: "length (append_offset acc mesh) = Suc (length acc)"
  by (simp add: append_offset_def)

lemma append_offset_nth_old: "i < length acc \<Longrightarrow> append_offset acc mesh ! i = acc ! i"
  by (simp add: append_offset_def nth_append)

lemma append_offset_nth_new:
  "append_offset acc mesh ! length acc = acc ! (length acc - 1) + int (length (mesh_verts mesh))"
  by (simp add: append_offset_def)

lemma foldl_offsets_length:
  "length (foldl append_offset acc ms) = length acc + length ms"
  by (induction ms arbitrary: acc) simp_all

lemma foldl_offsets_prefix:
  "i < length acc \<Longrightarrow> foldl append_offset acc ms ! i = acc ! i"
  by (induction ms arbitrary: acc) (simp_all add: append_offset_nth_old)

lemma append_offset_snoc:
  "append_offset (pre @ [x]) mesh = (pre @ [x]) @ [x + int (length (mesh_verts mesh))]"
  by (simp add: append_offset_def)

lemma foldl_offsets_nth:
  "k \<le> length ms \<Longrightarrow>
   foldl append_offset (pre @ [x]) ms ! (length pre + k)
     = x + int (sum_list (map (\<lambda>mesh. length (mesh_verts mesh)) (take k ms)))"
proof (induction ms arbitrary: pre x k)
  case Nil
  then show ?case by simp
next
  case (Cons mesh ms)
  show ?case
  proof (cases k)
    case 0
    then show ?thesis
      by (simp add: foldl_offsets_prefix append_offset_nth_old)
  next
    case (Suc j)
    have "foldl append_offset ((pre @ [x]) @ [x + int (length (mesh_verts mesh))]) ms
            ! (length (pre @ [x]) + j)
          = x + int (length (mesh_verts mesh))
            + int (sum_list (map (\<lambda>mesh. length (mesh_verts mesh)) (take j ms)))"
      using Cons.prems Suc by (intro Cons.IH) simp
    then show ?thesis
      using Suc by (simp add: append_offset_snoc)
  qed
qed

lemma vert_offsets_nth:
  "k \<le> length ms \<Longrightarrow>
     vert_offsets ms ! k = int (sum_list (map (\<lambda>mesh. length (mesh_verts mesh)) (take k ms)))"
  using foldl_offsets_nth [of k ms "[]" 0] by (simp add: vert_offsets_def)

lemma length_vert_offsets: "length (vert_offsets ms) = Suc (length ms)"
  by (simp add: vert_offsets_def foldl_offsets_length)

lemma vert_count_eq:
  "vert_offsets (model_meshes m) ! (length (vert_offsets (model_meshes m)) - 1) = int (total_verts m)"
  by (simp add: length_vert_offsets vert_offsets_nth total_verts_def)

lemma tags_of_if_Nil:
  "tag_of w t \<Longrightarrow> tags_of (if c then blk w else Inr []) (if c then [t] else [])"
  by (simp add: tags_of_blk tags_of_Inr_Nil)

lemma collect_Cons_Inr:
  "collect (x # xs) = Inr bs \<longleftrightarrow> (\<exists>a b. x = Inr a \<and> collect xs = Inr b \<and> bs = a @ b)"
  by (cases x; cases "collect xs") auto

lemma tags_of_model_blocks: "tags_of (model_blocks ser m v ext hdr) (model_tags m hdr)"
proof -
  let ?wide = "0xFFFF < int (total_verts m)"
  let ?cw = "if ?wide then WriteVertex32Count else WriteVertex16Count"
  let ?iw = "if ?wide then WriteVertex32Index else WriteVertex16Index"
  let ?ct = "if ?wide then 0x2AEC else (0x950D :: int)"
  let ?it = "if ?wide then 0xB097 else (0x8F03 :: int)"
  have cw: "tag_of (?cw i) ?ct" for i
    by (simp add: tag_of_writers)
  have iw: "tag_of (?iw i) ?it" for i
    by (simp add: tag_of_writers)
  have c: "(0 < int (length (filter bone_cosmetic (model_bones m)))) = (filter bone_cosmetic (model_bones m) \<noteq> [])"
    by simp
  have "tags_of (collect [
        (if hdr \<noteq> [] then blk (WriteCommentBlock hdr) else Inr []),
        blk WriteModelBlock,
        blk (WriteVersionBlock 7),
        blk (WriteBoneCountBlock (int (length (model_bones m)))),
        (if filter bone_cosmetic (model_bones m) \<noteq> []
         then blk (WriteCosmeticInfoBlock (int (length (filter bone_cosmetic (model_bones m)))))
         else Inr []),
        write_bone_info (model_bones m),
        write_bone_data (model_bones m),
        blk (?cw (int (total_verts m))),
        write_verts ?iw (vert_offsets (model_meshes m)) (model_meshes m),
        blk (WriteMetaInt32Block 0xBE92
               (sum_list (map (\<lambda>mesh. int (length (mesh_faces mesh))) (model_meshes m)))),
        write_faces ?iw (vert_offsets (model_meshes m)) (model_meshes m),
        blk (WriteMetaInt16Block 0x62AF (int (length (model_meshes m)))),
        write_objects (model_meshes m),
        blk (WriteMetaInt16Block 0xA1B2 (int (length (model_materials m)))),
        write_materials ser ext (model_materials m)])
     ((if hdr \<noteq> [] then [0xC355] else [])
       @ [0x46C8] @ [0x24D1] @ [0x76BA]
       @ (if filter bone_cosmetic (model_bones m) \<noteq> [] then [0x7836] else [])
       @ replicate (length (model_bones m)) 0xF099
       @ concat (replicate (length (model_bones m)) [0xDD9A, 0x9383, 0x1C56, 0xDCFD, 0xCCDC, 0xFCBF])
       @ [?ct]
       @ concat (map (\<lambda>mesh. concat (map (vertex_tags ?it) (mesh_verts mesh))) (model_meshes m))
       @ [0xBE92]
       @ concat (map (\<lambda>mesh. concat (map (face_tags ?it) (mesh_faces mesh))) (model_meshes m))
       @ [0x62AF]
       @ replicate (length (model_meshes m)) 0x87D4
       @ [0xA1B2]
       @ concat (replicate (length (model_materials m)) material_tags) @ [])"
    by (intro tags_of_Cons tags_of_Nil tags_of_blk tags_of_if_Nil tag_of_writers cw iw
        tags_of_write_bone_info tags_of_write_bone_data tags_of_write_verts tags_of_write_faces
        tags_of_write_objects tags_of_write_materials)
  then show ?thesis
    unfolding model_blocks_def model_tags_def Let_def vert_count_eq c
    by (cases ?wide) simp_all
qed


lemma model_blocks_tags:
  "model_blocks ser m v ext hdr = Inr bs \<Longrightarrow> map block_tag bs = model_tags m hdr"
  using tags_of_model_blocks [of ser m v ext hdr] by (simp add: tags_of_def)

lemma filter_vertex_tags:
  "it = 0x8F03 \<or> it = 0xB097 \<Longrightarrow>
     filter vertex_family_tag (concat (map (vertex_tags it) vs)) = replicate (length vs) it"
  by (induction vs) (auto simp add: vertex_tags_def vertex_family_tag_def)

lemma filter_vertex_section:
  "it = 0x8F03 \<or> it = 0xB097 \<Longrightarrow>
     filter vertex_family_tag
       (concat (map (\<lambda>mesh. concat (map (vertex_tags it) (mesh_verts mesh))) ms))
     = replicate (sum_list (map (\<lambda>mesh. length (mesh_verts mesh)) ms)) it"
  by (induction ms) (simp_all add: filter_vertex_tags replicate_add)

lemma filter_face_tags:
  "it = 0x8F03 \<or> it = 0xB097 \<Longrightarrow>
     filter vertex_family_tag (concat (map (face_tags it) fs)) = replicate (3 * length fs) it"
  by (induction fs) (auto simp add: face_tags_def vertex_family_tag_def numeral_3_eq_3)

lemma filter_face_section:
  "it = 0x8F03 \<or> it = 0xB097 \<Longrightarrow>
     filter vertex_family_tag
       (concat (map (\<lambda>mesh. concat (map (face_tags it) (mesh_faces mesh))) ms))
     = replicate (3 * sum_list (map (\<lambda>mesh. length (mesh_faces mesh)) ms)) it"
  by (induction ms) (simp_all add: filter_face_tags replicate_add distrib_left)

lemma filter_concat_replicate_Nil:
  "\<forall>y \<in> set ys. \<not> P y \<Longrightarrow> filter P (concat (replicate n ys)) = []"
  by (induction n) simp_all

lemma filter_model_tags:
  "filter vertex_family_tag (model_tags m hdr) =
     (if 0xFFFF < int (total_verts m)
      then 0x2AEC # replicate (total_verts m + 3 * total_faces m) 0xB097
      else 0x950D # replicate (total_verts m + 3 * total_faces m) 0x8F03)"
proof -
  have n: "filter vertex_family_tag (concat (replicate k [0xDD9A, 0x9383, 0x1C56, 0xDCFD, 0xCCDC, 0xFCBF])) = []"
    "filter vertex_family_tag (concat (replicate k material_tags)) = []" for k
    by (rule filter_concat_replicate_Nil, simp add: vertex_family_tag_def material_tags_def)+
  have r: "filter vertex_family_tag (replicate k 0xF099) = []"
    "filter vertex_family_tag (replicate k 0x87D4) = []" for k
    by (simp_all add: vertex_family_tag_def)
  have s: "vertex_family_tag 0x2AEC" "vertex_family_tag 0x950D" "\<not> vertex_family_tag 0xC355"
    "\<not> vertex_family_tag 0x46C8" "\<not> vertex_family_tag 0x24D1" "\<not> vertex_family_tag 0x76BA"
    "\<not> vertex_family_tag 0x7836" "\<not> vertex_family_tag 0xBE92" "\<not> vertex_family_tag 0x62AF"
    "\<not> vertex_family_tag 0xA1B2"
    by (simp_all add: vertex_family_tag_def)
  show ?thesis
    unfolding model_tags_def Let_def
    by (simp add: n r s filter_vertex_section filter_face_section replicate_add
        total_verts_def total_faces_def)
qed

text \<open>
  C5: in the blocks of a written model, the blocks that carry one of the four
  vertex-count and vertex-index tags are one count block followed by one index block for
  every vertex of every mesh and three for every face; when the total vertex count
  exceeds 65535 all of them carry the 32-bit tags (\<open>0x2AEC\<close>, \<open>0xB097\<close>), otherwise all of
  them carry the 16-bit tags (\<open>0x950D\<close>, \<open>0x8F03\<close>). The two families never mix.
\<close>

theorem vertex_tag_width_is_global:
  assumes "model_blocks ser m version ext hdr = Inr bs"
  shows "filter vertex_family_tag (map block_tag bs) =
     (if 0xFFFF < int (total_verts m)
      then 0x2AEC # replicate (total_verts m + 3 * total_faces m) 0xB097
      else 0x950D # replicate (total_verts m + 3 * total_faces m) 0x8F03)"
  using model_blocks_tags [OF assms] filter_model_tags [of m hdr] by simp

lemma A700_not_in_vertex_section:
  "(0xA700 :: int) \<notin> set (concat (map (\<lambda>mesh. concat (map (vertex_tags it) (mesh_verts mesh))) ms))"
  if "it = 0x8F03 \<or> it = 0xB097"
  using that by (auto simp add: vertex_tags_def)

lemma A700_not_in_face_section:
  "(0xA700 :: int) \<notin> set (concat (map (\<lambda>mesh. concat (map (face_tags it) (mesh_faces mesh))) ms))"
  if "it = 0x8F03 \<or> it = 0xB097"
  using that by (auto simp add: face_tags_def split: if_splits)

lemma A700_not_in_bone_section:
  "(0xA700 :: int) \<notin> set (concat (replicate k [0xDD9A, 0x9383, 0x1C56, 0xDCFD, 0xCCDC, 0xFCBF]))"
  by (induction k) simp_all

text \<open>
  C4, amended: the blocks of a written model end with the material count block and, for
  each material, the thirteen blocks material-info, color, transparency, ambient color,
  incandescence, coeffs, glow, refractive, specular color, reflective color, reflective,
  blinn, phong, in this order with nothing between them; no material-info block occurs
  before the material count block.
\<close>

theorem material_blocks_in_order:
  assumes "model_blocks ser m version ext hdr = Inr bs"
  shows "\<exists>pre. map block_tag bs =
            pre @ [0xA1B2] @ concat (replicate (length (model_materials m)) material_tags)
          \<and> 0xA700 \<notin> set pre"
proof -
  define it :: int where "it = (if 0xFFFF < int (total_verts m) then 0xB097 else 0x8F03)"
  define pre where "pre = (if hdr \<noteq> [] then [0xC355] else [])
       @ [0x46C8, 0x24D1, 0x76BA]
       @ (if filter bone_cosmetic (model_bones m) \<noteq> [] then [0x7836] else [])
       @ replicate (length (model_bones m)) 0xF099
       @ concat (replicate (length (model_bones m)) [0xDD9A, 0x9383, 0x1C56, 0xDCFD, 0xCCDC, 0xFCBF])
       @ [if 0xFFFF < int (total_verts m) then 0x2AEC else 0x950D]
       @ concat (map (\<lambda>mesh. concat (map (vertex_tags it) (mesh_verts mesh))) (model_meshes m))
       @ [0xBE92]
       @ concat (map (\<lambda>mesh. concat (map (face_tags it) (mesh_faces mesh))) (model_meshes m))
       @ [0x62AF]
       @ replicate (length (model_meshes m)) 0x87D4"
  have i: "it = 0x8F03 \<or> it = 0xB097"
    by (simp add: it_def)
  have "map block_tag bs = model_tags m hdr"
    using assms by (rule model_blocks_tags)
  then have "map block_tag bs =
      pre @ [0xA1B2] @ concat (replicate (length (model_materials m)) material_tags)"
    by (simp add: model_tags_def Let_def pre_def it_def)
  moreover have "0xA700 \<notin> set pre"
    using A700_not_in_vertex_section [OF i] A700_not_in_face_section [OF i]
      A700_not_in_bone_section
    by (simp add: pre_def, blast)
  ultimately show ?thesis by blast
qed

end
